theory Spec2Isabelle
  imports Complex_Main "HOL-Library.AList" "HOL-Library.List_Lexorder"
begin

section \<open>Python values\<close>

text \<open>
  A Python \<^verbatim>\<open>str\<close> is a sequence of Unicode code points, so a string of the program is a
  list of code points. ASCII text is written with \<open>ascii\<close>; the Vietnamese letters of the
  source are given by their code points.
\<close>

type_synonym codepoint = nat
type_synonym pystr = "codepoint list"

definition ascii :: "string \<Rightarrow> pystr" where
  "ascii s = map of_char s"

text \<open>
  A Python \<^verbatim>\<open>float\<close>: a finite value, the two infinities or NaN. Finite arithmetic is
  exact here (rounding to 53 bits is not modelled); the special values follow IEEE 754.
\<close>

datatype pyfloat = Finite real | PosInf | NegInf | NaN

text \<open>The values a request dictionary (\<^verbatim>\<open>Dict[str, Any]\<close>, decoded from JSON) can hold.\<close>

datatype pyval =
    PNone
  | PBool bool
  | PInt int
  | PFloat pyfloat
  | PStr pystr
  | PList "pyval list"
  | PDict "(pystr \<times> pyval) list"

datatype pyerr =
    ValueError | TypeError | OverflowError | AttributeError | KeyError | ZeroDivisionError

type_synonym pydict = "pystr \<rightharpoonup> pyval"

text \<open>
  Built-ins of the Python runtime that the program calls and that are not part of the
  repository: \<^verbatim>\<open>str.lower\<close>, the parser behind \<^verbatim>\<open>float(str)\<close> (\<open>None\<close> is its
  \<^verbatim>\<open>ValueError\<close>), \<^verbatim>\<open>hash\<close> on hashable values and the text of a number
  (\<^verbatim>\<open>astype(str)\<close>). Every theorem holds for all of them.
\<close>

record builtins =
  str_lower :: "pystr \<Rightarrow> pystr"
  str_to_float :: "pystr \<Rightarrow> pyfloat option"
  hash_of :: "pyval \<Rightarrow> int"
  float_repr :: "real \<Rightarrow> pystr"

definition py_bind :: "pyerr + 'a \<Rightarrow> ('a \<Rightarrow> pyerr + 'b) \<Rightarrow> pyerr + 'b" where
  "py_bind m f = (case m of Inl e \<Rightarrow> Inl e | Inr x \<Rightarrow> f x)"

text \<open>Truth value of an object, as \<^verbatim>\<open>if x\<close> and \<^verbatim>\<open>not x\<close> test it.\<close>

fun truthy :: "pyval \<Rightarrow> bool" where
  "truthy PNone = False"
| "truthy (PBool b) = b"
| "truthy (PInt n) = (n \<noteq> 0)"
| "truthy (PFloat f) = (f \<noteq> Finite 0)"
| "truthy (PStr s) = (s \<noteq> [])"
| "truthy (PList xs) = (xs \<noteq> [])"
| "truthy (PDict kvs) = (kvs \<noteq> [])"

text \<open>\<^verbatim>\<open>d.get(k, default)\<close> on a request dictionary and on a literal table.\<close>

definition data_get :: "('k \<rightharpoonup> 'v) \<Rightarrow> 'k \<Rightarrow> 'v \<Rightarrow> 'v" where
  "data_get d k dflt = (case d k of Some v \<Rightarrow> v | None \<Rightarrow> dflt)"

definition dict_get :: "('k \<times> 'v) list \<Rightarrow> 'k \<Rightarrow> 'v \<Rightarrow> 'v" where
  "dict_get d k dflt = (case map_of d k of Some v \<Rightarrow> v | None \<Rightarrow> dflt)"

subsection \<open>Strings\<close>

text \<open>The code points \<^verbatim>\<open>str.strip()\<close> removes (those with \<^verbatim>\<open>str.isspace\<close>).\<close>

definition is_space :: "codepoint \<Rightarrow> bool" where
  "is_space c \<longleftrightarrow>
     (9 \<le> c \<and> c \<le> 13) \<or> (28 \<le> c \<and> c \<le> 32) \<or> c = 133 \<or> c = 160 \<or> c = 5760 \<or>
     (8192 \<le> c \<and> c \<le> 8202) \<or> c = 8232 \<or> c = 8233 \<or> c = 8239 \<or> c = 8287 \<or> c = 12288"

definition lstrip :: "pystr \<Rightarrow> pystr" where
  "lstrip s = dropWhile is_space s"

definition rstrip :: "pystr \<Rightarrow> pystr" where
  "rstrip s = rev (dropWhile is_space (rev s))"

definition strip :: "pystr \<Rightarrow> pystr" where
  "strip s = rstrip (lstrip s)"

text \<open>\<^verbatim>\<open>s.lower()\<close>: the empty string stays empty, the rest is the runtime's.\<close>

definition py_lower :: "builtins \<Rightarrow> pystr \<Rightarrow> pystr" where
  "py_lower B s = (if s = [] then [] else str_lower B s)"

subsection \<open>Floats\<close>

fun f_lt :: "pyfloat \<Rightarrow> pyfloat \<Rightarrow> bool" where
  "f_lt (Finite x) (Finite y) = (x < y)"
| "f_lt (Finite x) PosInf = True"
| "f_lt NegInf (Finite y) = True"
| "f_lt NegInf PosInf = True"
| "f_lt _ _ = False"

definition f_gt :: "pyfloat \<Rightarrow> pyfloat \<Rightarrow> bool" where
  "f_gt a b = f_lt b a"

definition f_eq :: "pyfloat \<Rightarrow> pyfloat \<Rightarrow> bool" where
  "f_eq a b = (a \<noteq> NaN \<and> a = b)"

definition f_ge :: "pyfloat \<Rightarrow> pyfloat \<Rightarrow> bool" where
  "f_ge a b = (f_gt a b \<or> f_eq a b)"

text \<open>\<^verbatim>\<open>max(a, b)\<close> keeps its first argument unless the second is greater.\<close>

definition f_max :: "pyfloat \<Rightarrow> pyfloat \<Rightarrow> pyfloat" where
  "f_max a b = (if f_gt b a then b else a)"

fun f_add :: "pyfloat \<Rightarrow> pyfloat \<Rightarrow> pyfloat" where
  "f_add (Finite x) (Finite y) = Finite (x + y)"
| "f_add NaN _ = NaN"
| "f_add _ NaN = NaN"
| "f_add PosInf NegInf = NaN"
| "f_add NegInf PosInf = NaN"
| "f_add PosInf _ = PosInf"
| "f_add NegInf _ = NegInf"
| "f_add (Finite x) b = b"

definition f_sign_inf :: "bool \<Rightarrow> pyfloat" where
  "f_sign_inf positive = (if positive then PosInf else NegInf)"

fun f_mul :: "pyfloat \<Rightarrow> pyfloat \<Rightarrow> pyfloat" where
  "f_mul (Finite x) (Finite y) = Finite (x * y)"
| "f_mul NaN _ = NaN"
| "f_mul _ NaN = NaN"
| "f_mul (Finite x) PosInf = (if x = 0 then NaN else f_sign_inf (0 < x))"
| "f_mul (Finite x) NegInf = (if x = 0 then NaN else f_sign_inf (x < 0))"
| "f_mul PosInf (Finite y) = (if y = 0 then NaN else f_sign_inf (0 < y))"
| "f_mul NegInf (Finite y) = (if y = 0 then NaN else f_sign_inf (y < 0))"
| "f_mul PosInf PosInf = PosInf"
| "f_mul NegInf NegInf = PosInf"
| "f_mul PosInf NegInf = NegInf"
| "f_mul NegInf PosInf = NegInf"

text \<open>Float division raises \<^verbatim>\<open>ZeroDivisionError\<close> on a zero divisor.\<close>

fun f_div :: "pyfloat \<Rightarrow> pyfloat \<Rightarrow> pyerr + pyfloat" where
  "f_div a (Finite y) =
     (if y = 0 then Inl ZeroDivisionError
      else Inr (case a of Finite x \<Rightarrow> Finite (x / y) | NaN \<Rightarrow> NaN
                | PosInf \<Rightarrow> f_sign_inf (0 < y) | NegInf \<Rightarrow> f_sign_inf (y < 0)))"
| "f_div a NaN = Inr NaN"
| "f_div (Finite x) b = Inr (Finite 0)"
| "f_div a b = Inr NaN"

text \<open>
  \<^verbatim>\<open>float(value)\<close>. An \<^verbatim>\<open>int\<close> whose nearest double is beyond the largest finite
  one raises \<^verbatim>\<open>OverflowError\<close>; a string goes through the runtime's parser.
\<close>

fun py_float :: "builtins \<Rightarrow> pyval \<Rightarrow> pyerr + pyfloat" where
  "py_float B (PBool b) = Inr (Finite (if b then 1 else 0))"
| "py_float B (PInt n) =
     (if 2 ^ 1024 - 2 ^ 970 \<le> \<bar>n\<bar> then Inl OverflowError else Inr (Finite (real_of_int n)))"
| "py_float B (PFloat f) = Inr f"
| "py_float B (PStr s) = (case str_to_float B s of None \<Rightarrow> Inl ValueError | Some f \<Rightarrow> Inr f)"
| "py_float B v = Inl TypeError"

text \<open>
  \<^verbatim>\<open>int(value)\<close> on an instance of \<^verbatim>\<open>int\<close> or \<^verbatim>\<open>float\<close> (\<^verbatim>\<open>bool\<close> is a subclass of
  \<^verbatim>\<open>int\<close>): truncation toward zero, \<^verbatim>\<open>ValueError\<close> on NaN, \<^verbatim>\<open>OverflowError\<close> on an
  infinity.
\<close>

fun is_int_or_float :: "pyval \<Rightarrow> bool" where
  "is_int_or_float (PBool b) = True"
| "is_int_or_float (PInt n) = True"
| "is_int_or_float (PFloat f) = True"
| "is_int_or_float v = False"

fun py_int :: "pyval \<Rightarrow> pyerr + int" where
  "py_int (PBool b) = Inr (if b then 1 else 0)"
| "py_int (PInt n) = Inr n"
| "py_int (PFloat (Finite r)) = Inr (if 0 \<le> r then \<lfloor>r\<rfloor> else \<lceil>r\<rceil>)"
| "py_int (PFloat NaN) = Inl ValueError"
| "py_int (PFloat f) = Inl OverflowError"
| "py_int v = Inl TypeError"

text \<open>\<^verbatim>\<open>hash(value)\<close>: lists and dictionaries are unhashable.\<close>

fun py_hash :: "builtins \<Rightarrow> pyval \<Rightarrow> pyerr + int" where
  "py_hash B (PList xs) = Inl TypeError"
| "py_hash B (PDict kvs) = Inl TypeError"
| "py_hash B v = Inr (hash_of B v)"

section \<open>The online single-record preprocessor (tree\_preprocess\_service.py)\<close>

subsection \<open>Module constants\<close>

definition EXPECTED_FEATURES :: "pystr list" where
  "EXPECTED_FEATURES =
    [ascii ''Area'',
     ascii ''Frontage'',
     ascii ''Access Road'',
     ascii ''House direction'',
     ascii ''Balcony direction'',
     ascii ''Floors'',
     ascii ''Bedrooms'',
     ascii ''Bathrooms'',
     ascii ''Legal status'',
     ascii ''Furniture state'',
     ascii ''new_has_balcony_direction'',
     ascii ''new_has_house_direction'',
     ascii ''new_city'',
     ascii ''new_district'',
     ascii ''new_street_ward'',
     ascii ''new_has_access_road'',
     ascii ''has_frontage'',
     ascii ''new_bathroom_bedroom_ratio'',
     ascii ''new_total_rooms'',
     ascii ''new_is_large_house'',
     ascii ''new_avg_room_size'',
     ascii ''new_is_luxury'',
     ascii ''new_is_multi_story'',
     ascii ''Area_binned'',
     ascii ''area_x_bathrooms'',
     ascii ''area_x_bedrooms'',
     ascii ''area_x_floors'',
     ascii ''bedrooms_x_bathrooms'',
     ascii ''bedrooms_x_floors'',
     ascii ''luxury_score'',
     ascii ''area_in_h'' @ [7891] @ ascii ''_ch'' @ [237] @ ascii ''_minh'',
     ascii ''area_in_h'' @ [224] @ ascii ''_n'' @ [7897] @ ascii ''i'',
     ascii ''area_in_b'' @ [236] @ ascii ''nh_d'' @ [432, 417] @ ascii ''ng'',
     ascii ''area_in_'' @ [273, 224] @ ascii ''_n'' @ [7861] @ ascii ''ng'',
     ascii ''room_density'',
     ascii ''access_quality'',
     ascii ''new_district_area_mean'',
     ascii ''new_district_area_median'',
     ascii ''new_district_area_std'',
     ascii ''new_district_sample_count'',
     ascii ''new_district_tier'']"

definition CITY_MAPPING :: "(pystr \<times> pystr) list" where
  "CITY_MAPPING =
    [(ascii ''h'' @ [7891] @ ascii '' ch'' @ [237] @ ascii '' minh'', ascii ''H'' @ [7891] @ ascii '' Ch'' @ [237] @ ascii '' Minh''),
     (ascii ''ho chi minh'', ascii ''H'' @ [7891] @ ascii '' Ch'' @ [237] @ ascii '' Minh''),
     (ascii ''hcm'', ascii ''H'' @ [7891] @ ascii '' Ch'' @ [237] @ ascii '' Minh''),
     (ascii ''tphcm'', ascii ''H'' @ [7891] @ ascii '' Ch'' @ [237] @ ascii '' Minh''),
     (ascii ''tp hcm'', ascii ''H'' @ [7891] @ ascii '' Ch'' @ [237] @ ascii '' Minh''),
     (ascii ''saigon'', ascii ''H'' @ [7891] @ ascii '' Ch'' @ [237] @ ascii '' Minh''),
     (ascii ''s'' @ [224] @ ascii ''i g'' @ [242] @ ascii ''n'', ascii ''H'' @ [7891] @ ascii '' Ch'' @ [237] @ ascii '' Minh''),
     (ascii ''h'' @ [224] @ ascii '' n'' @ [7897] @ ascii ''i'', ascii ''H'' @ [224] @ ascii '' N'' @ [7897] @ ascii ''i''),
     (ascii ''ha noi'', ascii ''H'' @ [224] @ ascii '' N'' @ [7897] @ ascii ''i''),
     (ascii ''hanoi'', ascii ''H'' @ [224] @ ascii '' N'' @ [7897] @ ascii ''i''),
     (ascii ''b'' @ [236] @ ascii ''nh d'' @ [432, 417] @ ascii ''ng'', ascii ''B'' @ [236] @ ascii ''nh D'' @ [432, 417] @ ascii ''ng''),
     (ascii ''binh duong'', ascii ''B'' @ [236] @ ascii ''nh D'' @ [432, 417] @ ascii ''ng''),
     ([273, 224] @ ascii '' n'' @ [7861] @ ascii ''ng'', [272, 224] @ ascii '' N'' @ [7861] @ ascii ''ng''),
     (ascii ''da nang'', [272, 224] @ ascii '' N'' @ [7861] @ ascii ''ng''),
     (ascii ''danang'', [272, 224] @ ascii '' N'' @ [7861] @ ascii ''ng'')]"

definition DIRECTION_MAPPING :: "(pystr \<times> int) list" where
  "DIRECTION_MAPPING =
    [([273, 244] @ ascii ''ng'', 0),
     (ascii ''dong'', 0),
     (ascii ''east'', 0),
     (ascii ''e'', 0),
     (ascii ''t'' @ [226] @ ascii ''y'', 1),
     (ascii ''tay'', 1),
     (ascii ''west'', 1),
     (ascii ''w'', 1),
     (ascii ''nam'', 2),
     (ascii ''south'', 2),
     (ascii ''s'', 2),
     (ascii ''b'' @ [7855] @ ascii ''c'', 3),
     (ascii ''bac'', 3),
     (ascii ''north'', 3),
     (ascii ''n'', 3),
     ([273, 244] @ ascii ''ng nam'', 4),
     (ascii ''dong nam'', 4),
     (ascii ''southeast'', 4),
     (ascii ''se'', 4),
     ([273, 244] @ ascii ''ng b'' @ [7855] @ ascii ''c'', 5),
     (ascii ''dong bac'', 5),
     (ascii ''northeast'', 5),
     (ascii ''ne'', 5),
     (ascii ''t'' @ [226] @ ascii ''y nam'', 6),
     (ascii ''tay nam'', 6),
     (ascii ''southwest'', 6),
     (ascii ''sw'', 6),
     (ascii ''t'' @ [226] @ ascii ''y b'' @ [7855] @ ascii ''c'', 7),
     (ascii ''tay bac'', 7),
     (ascii ''northwest'', 7),
     (ascii ''nw'', 7)]"

definition LEGAL_STATUS_MAPPING :: "(pystr \<times> int) list" where
  "LEGAL_STATUS_MAPPING =
    [(ascii ''s'' @ [7893] @ ascii '' '' @ [273, 7887], 0),
     (ascii ''so do'', 0),
     (ascii ''s'' @ [7893] @ ascii '' h'' @ [7891] @ ascii ''ng'', 1),
     (ascii ''so hong'', 1),
     (ascii ''h'' @ [7907] @ ascii ''p '' @ [273, 7891] @ ascii ''ng'', 2),
     (ascii ''hop dong'', 2),
     ([273] @ ascii ''ang ch'' @ [7901] @ ascii '' s'' @ [7893], 3),
     (ascii ''dang cho so'', 3),
     (ascii ''kh'' @ [244] @ ascii ''ng r'' @ [245], 4),
     (ascii ''khong ro'', 4)]"

definition FURNITURE_MAPPING :: "(pystr \<times> int) list" where
  "FURNITURE_MAPPING =
    [(ascii ''cao c'' @ [7845] @ ascii ''p'', 0),
     (ascii ''cao cap'', 0),
     (ascii ''full'', 0),
     ([273, 7847] @ ascii ''y '' @ [273, 7911], 1),
     (ascii ''day du'', 1),
     (ascii ''basic'', 1),
     (ascii ''c'' @ [417] @ ascii '' b'' @ [7843] @ ascii ''n'', 2),
     (ascii ''co ban'', 2),
     (ascii ''kh'' @ [244] @ ascii ''ng n'' @ [7897] @ ascii ''i th'' @ [7845] @ ascii ''t'', 3),
     (ascii ''khong noi that'', 3),
     (ascii ''none'', 3),
     (ascii ''tr'' @ [7889] @ ascii ''ng'', 3),
     (ascii ''kh'' @ [244] @ ascii ''ng r'' @ [245], 4),
     (ascii ''khong ro'', 4)]"

subsection \<open>The service and its helpers\<close>

text \<open>
  A fitted \<^verbatim>\<open>LabelEncoder\<close> is its \<^verbatim>\<open>classes_\<close> array. The location statistics are used
  by the service as a mapping from a district to a mapping with \<^verbatim>\<open>get\<close>; \<open>None\<close> is the
  artifact that was not loaded.
\<close>

record label_encoder =
  classes :: "pystr list"

record service =
  label_encoders :: "pystr \<rightharpoonup> label_encoder"
  location_stats :: "(pystr \<rightharpoonup> (pystr \<rightharpoonup> pyval)) option"

datatype log_entry = MissingFeatureWarning pystr | PreprocessedInfo nat

text \<open>\<^verbatim>\<open>_to_float(value, default)\<close>: only \<^verbatim>\<open>ValueError\<close> and \<^verbatim>\<open>TypeError\<close> are caught.\<close>

definition to_float :: "builtins \<Rightarrow> pyval \<Rightarrow> pyfloat \<Rightarrow> pyerr + pyfloat" where
  "to_float B v dflt =
     (if v = PNone \<or> v = PStr [] then Inr dflt
      else (case py_float B v of
              Inl ValueError \<Rightarrow> Inr dflt
            | Inl TypeError \<Rightarrow> Inr dflt
            | Inl e \<Rightarrow> Inl e
            | Inr f \<Rightarrow> Inr f))"

definition normalize_city :: "builtins \<Rightarrow> pyval \<Rightarrow> pyerr + pystr" where
  "normalize_city B city =
     (if \<not> truthy city then Inr (ascii ''H'' @ [7891] @ ascii '' Ch'' @ [237] @ ascii '' Minh'')
      else (case city of
              PStr s \<Rightarrow> Inr (dict_get CITY_MAPPING (strip (py_lower B s)) s)
            | _ \<Rightarrow> Inl AttributeError))"

definition encode_direction :: "builtins \<Rightarrow> pyval \<Rightarrow> pyerr + int" where
  "encode_direction B direction =
     (if is_int_or_float direction then py_int direction
      else (case direction of
              PStr s \<Rightarrow> Inr (dict_get DIRECTION_MAPPING (strip (py_lower B s)) 1)
            | _ \<Rightarrow> Inr 1))"

definition encode_legal_status :: "builtins \<Rightarrow> pyval \<Rightarrow> pyerr + int" where
  "encode_legal_status B status =
     (if is_int_or_float status then py_int status
      else (case status of
              PStr s \<Rightarrow> Inr (dict_get LEGAL_STATUS_MAPPING (strip (py_lower B s)) 0)
            | _ \<Rightarrow> Inr 0))"

definition encode_furniture :: "builtins \<Rightarrow> pyval \<Rightarrow> pyerr + int" where
  "encode_furniture B furniture =
     (if is_int_or_float furniture then py_int furniture
      else (case furniture of
              PStr s \<Rightarrow> Inr (dict_get FURNITURE_MAPPING (strip (py_lower B s)) 1)
            | _ \<Rightarrow> Inr 1))"

text \<open>Position of a class in \<^verbatim>\<open>classes_\<close>, which is what \<^verbatim>\<open>le.transform([value])[0]\<close> returns.\<close>

fun index_of :: "'a list \<Rightarrow> 'a \<Rightarrow> nat" where
  "index_of [] v = 0"
| "index_of (x # xs) v = (if x = v then 0 else Suc (index_of xs v))"

text \<open>
  \<^verbatim>\<open>_encode_categorical(column, value)\<close>. With an encoder for the column every failure
  inside the \<^verbatim>\<open>try\<close> is caught and gives \<open>-1\<close>, and a value that is not a string is not
  among the (string) classes. Without one the code is \<^verbatim>\<open>abs(hash(value)) % 1000\<close>.
\<close>

definition encode_categorical :: "builtins \<Rightarrow> service \<Rightarrow> pystr \<Rightarrow> pyval \<Rightarrow> pyerr + int" where
  "encode_categorical B svc column v =
     (case label_encoders svc column of
        Some le \<Rightarrow>
          (case v of
             PStr s \<Rightarrow> if s \<in> set (classes le) then Inr (int (index_of (classes le) s)) else Inr (- 1)
           | _ \<Rightarrow> Inr (- 1))
      | None \<Rightarrow>
          (if \<not> truthy v then Inr 0
           else py_bind (py_hash B v) (\<lambda>h. Inr (\<bar>h\<bar> mod 1000))))"

text \<open>
  \<^verbatim>\<open>self.location_stats is not None and district in self.location_stats\<close>, then
  \<^verbatim>\<open>self.location_stats[district]\<close>: \<open>Some stats\<close> is the first branch, \<open>None\<close> the
  \<^verbatim>\<open>else\<close> branch. The keys of the table are district names, so a hashable value that is
  not a string is not a key; testing an unhashable one raises.
\<close>

definition lookup_location_stats :: "service \<Rightarrow> pyval \<Rightarrow> pyerr + (pystr \<rightharpoonup> pyval) option" where
  "lookup_location_stats svc district =
     (case location_stats svc of
        None \<Rightarrow> Inr None
      | Some table \<Rightarrow>
          (case district of
             PList xs \<Rightarrow> Inl TypeError
           | PDict kvs \<Rightarrow> Inl TypeError
           | PStr s \<Rightarrow> Inr (table s)
           | _ \<Rightarrow> Inr None))"

definition of_flag :: "bool \<Rightarrow> pyval" where
  "of_flag b = PInt (if b then 1 else 0)"

subsection \<open>preprocess\<close>

text \<open>
  Lines 158 to 273 of \<^verbatim>\<open>preprocess\<close>: the dictionary \<^verbatim>\<open>processed\<close>. The local variables
  keep their names; \<open>bedrooms\<close> is \<^verbatim>\<open>max(processed['Bedrooms'], 1)\<close>.
\<close>

definition preprocess_processed :: "builtins \<Rightarrow> service \<Rightarrow> pydict \<Rightarrow> pyerr + (pystr \<rightharpoonup> pyval)" where
  "preprocess_processed B svc data =
     py_bind (to_float B (data_get data (ascii ''Area'') (PInt 70)) (Finite 0)) (\<lambda>area.
     py_bind (to_float B (data_get data (ascii ''Frontage'') (PInt 0)) (Finite 0)) (\<lambda>frontage.
     py_bind (to_float B (data_get data (ascii ''AccessRoad'')
                (data_get data (ascii ''Access Road'') (PInt 0))) (Finite 0)) (\<lambda>access_road.
     py_bind (to_float B (data_get data (ascii ''Floors'') (PInt 1)) (Finite 0)) (\<lambda>floors.
     py_bind (to_float B (data_get data (ascii ''Bedrooms'') (PInt 2)) (Finite 0)) (\<lambda>bedrooms_raw.
     py_bind (to_float B (data_get data (ascii ''Bathrooms'') (PInt 2)) (Finite 0)) (\<lambda>bathrooms.
     let direction = data_get data (ascii ''Direction'')
                       (data_get data (ascii ''House direction'') (PStr [])) in
     py_bind (encode_direction B direction) (\<lambda>house_direction.
     let balcony_dir = data_get data (ascii ''BalconyDirection'')
                         (data_get data (ascii ''Balcony direction'') (PStr [])) in
     py_bind (encode_direction B balcony_dir) (\<lambda>balcony_direction.
     let legal = data_get data (ascii ''LegalStatus'')
                   (data_get data (ascii ''Legal status'') (PStr [])) in
     py_bind (encode_legal_status B legal) (\<lambda>legal_status.
     let furniture = data_get data (ascii ''Furniture'')
                       (data_get data (ascii ''Furniture state'') (PStr [])) in
     py_bind (encode_furniture B furniture) (\<lambda>furniture_state.
     py_bind (normalize_city B (data_get data (ascii ''City'')
                (data_get data (ascii ''new_city'')
                   (PStr (ascii ''H'' @ [7891] @ ascii '' Ch'' @ [237] @ ascii '' Minh''))))) (\<lambda>city.
     let district = data_get data (ascii ''District'')
                      (data_get data (ascii ''new_district'') (PStr []));
         ward = data_get data (ascii ''Ward'')
                  (data_get data (ascii ''new_street_ward'') (PStr [])) in
     py_bind (encode_categorical B svc (ascii ''new_city'') (PStr city)) (\<lambda>new_city.
     py_bind (encode_categorical B svc (ascii ''new_district'') district) (\<lambda>new_district.
     py_bind (encode_categorical B svc (ascii ''new_street_ward'') ward) (\<lambda>new_street_ward.
     let bedrooms = f_max bedrooms_raw (Finite 1) in
     py_bind (f_div bathrooms bedrooms) (\<lambda>bathroom_bedroom_ratio.
     let total_rooms = f_add bedrooms bathrooms in
     py_bind (f_div area (f_max total_rooms (Finite 1))) (\<lambda>avg_room_size.
     let area_binned =
           (if f_lt area (Finite 30) then 0
            else if f_lt area (Finite 60) then 1
            else if f_lt area (Finite 100) then 2
            else if f_lt area (Finite 150) then 3
            else (4::int));
         luxury_score =
           (if f_ge bathrooms (Finite 3) then 1 else 0) +
           (if f_gt area (Finite 100) then 1 else 0) +
           (if furniture_state = 0 \<or> furniture_state = 1 then 1 else (0::int)) in
     py_bind (f_div total_rooms (f_max area (Finite 1))) (\<lambda>room_density.
     let access_quality =
           (if f_eq access_road (Finite 0) then 0
            else if f_lt access_road (Finite 5) then 1 else (2::int)) in
     py_bind (lookup_location_stats svc district) (\<lambda>found.
     let area_mean =
           (case found of Some stats \<Rightarrow> data_get stats (ascii ''area_mean'') (PInt 70)
            | None \<Rightarrow> PFloat (Finite 70));
         area_median =
           (case found of Some stats \<Rightarrow> data_get stats (ascii ''area_median'') (PInt 65)
            | None \<Rightarrow> PFloat (Finite 65));
         area_std =
           (case found of Some stats \<Rightarrow> data_get stats (ascii ''area_std'') (PInt 30)
            | None \<Rightarrow> PFloat (Finite 30));
         sample_count =
           (case found of Some stats \<Rightarrow> data_get stats (ascii ''sample_count'') (PInt 100)
            | None \<Rightarrow> PInt 100);
         tier =
           (case found of Some stats \<Rightarrow> data_get stats (ascii ''tier'') (PInt 2)
            | None \<Rightarrow> PInt 2) in
     Inr [ascii ''Area'' \<mapsto> PFloat area,
          ascii ''Frontage'' \<mapsto> PFloat frontage,
          ascii ''Access Road'' \<mapsto> PFloat access_road,
          ascii ''Floors'' \<mapsto> PFloat floors,
          ascii ''Bedrooms'' \<mapsto> PFloat bedrooms_raw,
          ascii ''Bathrooms'' \<mapsto> PFloat bathrooms,
          ascii ''House direction'' \<mapsto> PInt house_direction,
          ascii ''Balcony direction'' \<mapsto> PInt balcony_direction,
          ascii ''Legal status'' \<mapsto> PInt legal_status,
          ascii ''Furniture state'' \<mapsto> PInt furniture_state,
          ascii ''new_has_balcony_direction'' \<mapsto> of_flag (truthy balcony_dir),
          ascii ''new_has_house_direction'' \<mapsto> of_flag (truthy direction),
          ascii ''new_has_access_road'' \<mapsto> of_flag (f_gt access_road (Finite 0)),
          ascii ''has_frontage'' \<mapsto> of_flag (f_gt frontage (Finite 0)),
          ascii ''new_city'' \<mapsto> PInt new_city,
          ascii ''new_district'' \<mapsto> PInt new_district,
          ascii ''new_street_ward'' \<mapsto> PInt new_street_ward,
          ascii ''new_bathroom_bedroom_ratio'' \<mapsto> PFloat bathroom_bedroom_ratio,
          ascii ''new_total_rooms'' \<mapsto> PFloat total_rooms,
          ascii ''new_is_large_house'' \<mapsto> of_flag (f_gt area (Finite 140)),
          ascii ''new_avg_room_size'' \<mapsto> PFloat avg_room_size,
          ascii ''new_is_luxury'' \<mapsto> of_flag (f_ge bathrooms (Finite 4)),
          ascii ''new_is_multi_story'' \<mapsto> of_flag (f_gt floors (Finite 2)),
          ascii ''Area_binned'' \<mapsto> PInt area_binned,
          ascii ''area_x_bathrooms'' \<mapsto> PFloat (f_mul area bathrooms),
          ascii ''area_x_bedrooms'' \<mapsto> PFloat (f_mul area bedrooms),
          ascii ''area_x_floors'' \<mapsto> PFloat (f_mul area floors),
          ascii ''bedrooms_x_bathrooms'' \<mapsto> PFloat (f_mul bedrooms bathrooms),
          ascii ''bedrooms_x_floors'' \<mapsto> PFloat (f_mul bedrooms floors),
          ascii ''luxury_score'' \<mapsto> PInt luxury_score,
          ascii ''area_in_h'' @ [7891] @ ascii ''_ch'' @ [237] @ ascii ''_minh'' \<mapsto>
            (if city = ascii ''H'' @ [7891] @ ascii '' Ch'' @ [237] @ ascii '' Minh''
             then PFloat area else PInt 0),
          ascii ''area_in_h'' @ [224] @ ascii ''_n'' @ [7897] @ ascii ''i'' \<mapsto>
            (if city = ascii ''H'' @ [224] @ ascii '' N'' @ [7897] @ ascii ''i''
             then PFloat area else PInt 0),
          ascii ''area_in_b'' @ [236] @ ascii ''nh_d'' @ [432, 417] @ ascii ''ng'' \<mapsto>
            (if city = ascii ''B'' @ [236] @ ascii ''nh D'' @ [432, 417] @ ascii ''ng''
             then PFloat area else PInt 0),
          ascii ''area_in_'' @ [273, 224] @ ascii ''_n'' @ [7861] @ ascii ''ng'' \<mapsto>
            (if city = [272, 224] @ ascii '' N'' @ [7861] @ ascii ''ng''
             then PFloat area else PInt 0),
          ascii ''room_density'' \<mapsto> PFloat room_density,
          ascii ''access_quality'' \<mapsto> PInt access_quality,
          ascii ''new_district_area_mean'' \<mapsto> area_mean,
          ascii ''new_district_area_median'' \<mapsto> area_median,
          ascii ''new_district_area_std'' \<mapsto> area_std,
          ascii ''new_district_sample_count'' \<mapsto> sample_count,
          ascii ''new_district_tier'' \<mapsto> tier]))))))))))))))))))"

text \<open>
  Lines 275 to 292: the loop over \<^verbatim>\<open>EXPECTED_FEATURES\<close> that fills \<^verbatim>\<open>result\<close> (a
  dictionary, in insertion order) and logs a warning for a missing feature, then
  \<^verbatim>\<open>pd.DataFrame([result])\<close> and \<^verbatim>\<open>df[EXPECTED_FEATURES]\<close>, which raises \<^verbatim>\<open>KeyError\<close> for
  a column the frame does not have.
\<close>

definition result_step ::
  "(pystr \<rightharpoonup> pyval) \<Rightarrow> (pystr \<times> pyval) list \<times> log_entry list \<Rightarrow> pystr
     \<Rightarrow> (pystr \<times> pyval) list \<times> log_entry list" where
  "result_step processed acc feature =
     (case processed feature of
        Some v \<Rightarrow> (AList.update feature v (fst acc), snd acc)
      | None \<Rightarrow> (AList.update feature (PInt 0) (fst acc), snd acc @ [MissingFeatureWarning feature]))"

definition build_result ::
  "(pystr \<rightharpoonup> pyval) \<Rightarrow> pystr list \<Rightarrow> (pystr \<times> pyval) list \<times> log_entry list" where
  "build_result processed features = foldl (result_step processed) ([], []) features"

fun select_columns :: "(pystr \<times> pyval) list \<Rightarrow> pystr list \<Rightarrow> pyerr + (pystr \<times> pyval) list" where
  "select_columns row [] = Inr []"
| "select_columns row (c # cs) =
     (case map_of row c of
        None \<Rightarrow> Inl KeyError
      | Some v \<Rightarrow> py_bind (select_columns row cs) (\<lambda>r. Inr ((c, v) # r)))"

definition preprocess_create_dataframe ::
  "(pystr \<rightharpoonup> pyval) \<Rightarrow> pyerr + ((pystr \<times> pyval) list \<times> log_entry list)" where
  "preprocess_create_dataframe processed =
     (case build_result processed EXPECTED_FEATURES of (result, logged) \<Rightarrow>
        py_bind (select_columns result EXPECTED_FEATURES) (\<lambda>df.
          Inr (df, logged @ [PreprocessedInfo (length df)])))"

text \<open>
  \<^verbatim>\<open>TreePreprocessService.preprocess(data)\<close>: the one-row frame as the list of its
  columns with their values, in column order, and the log; \<open>Inl\<close> is the exception that
  leaves the method.
\<close>

definition preprocess ::
  "builtins \<Rightarrow> service \<Rightarrow> pydict \<Rightarrow> pyerr + ((pystr \<times> pyval) list \<times> log_entry list)" where
  "preprocess B svc data = py_bind (preprocess_processed B svc data) preprocess_create_dataframe"

subsection \<open>Reading the result, and the inputs the method accepts\<close>

text \<open>\<^verbatim>\<open>df[name]\<close> of the returned one-row frame; \<open>None\<close> when the call raised.\<close>

definition feature ::
  "pyerr + ((pystr \<times> pyval) list \<times> log_entry list) \<Rightarrow> pystr \<Rightarrow> pyval option" where
  "feature r name = (case r of Inl e \<Rightarrow> None | Inr out \<Rightarrow> map_of (fst out) name)"

text \<open>The values \<^verbatim>\<open>preprocess\<close> reads from the request, with the two spellings of a key.\<close>

definition input_access_road :: "pydict \<Rightarrow> pyval" where
  "input_access_road data =
     data_get data (ascii ''AccessRoad'') (data_get data (ascii ''Access Road'') (PInt 0))"

definition input_direction :: "pydict \<Rightarrow> pyval" where
  "input_direction data =
     data_get data (ascii ''Direction'') (data_get data (ascii ''House direction'') (PStr []))"

definition input_balcony_dir :: "pydict \<Rightarrow> pyval" where
  "input_balcony_dir data =
     data_get data (ascii ''BalconyDirection'') (data_get data (ascii ''Balcony direction'') (PStr []))"

definition input_legal :: "pydict \<Rightarrow> pyval" where
  "input_legal data =
     data_get data (ascii ''LegalStatus'') (data_get data (ascii ''Legal status'') (PStr []))"

definition input_furniture :: "pydict \<Rightarrow> pyval" where
  "input_furniture data =
     data_get data (ascii ''Furniture'') (data_get data (ascii ''Furniture state'') (PStr []))"

definition input_city :: "pydict \<Rightarrow> pyval" where
  "input_city data =
     data_get data (ascii ''City'') (data_get data (ascii ''new_city'')
       (PStr (ascii ''H'' @ [7891] @ ascii '' Ch'' @ [237] @ ascii '' Minh'')))"

definition input_district :: "pydict \<Rightarrow> pyval" where
  "input_district data =
     data_get data (ascii ''District'') (data_get data (ascii ''new_district'') (PStr []))"

definition input_ward :: "pydict \<Rightarrow> pyval" where
  "input_ward data =
     data_get data (ascii ''Ward'') (data_get data (ascii ''new_street_ward'') (PStr []))"

text \<open>
  What keeps each conversion of the method from raising: an \<^verbatim>\<open>int\<close> passed to
  \<^verbatim>\<open>float\<close> is in the range of a double; a number passed to \<^verbatim>\<open>int\<close> is not NaN or an
  infinity; the city is a string or falsy; district and ward are hashable.
\<close>

definition float_convertible :: "pyval \<Rightarrow> bool" where
  "float_convertible v = (case v of PInt n \<Rightarrow> \<bar>n\<bar> < 2 ^ 1024 - 2 ^ 970 | _ \<Rightarrow> True)"

definition int_convertible :: "pyval \<Rightarrow> bool" where
  "int_convertible v = (v \<noteq> PFloat NaN \<and> v \<noteq> PFloat PosInf \<and> v \<noteq> PFloat NegInf)"

definition str_or_falsy :: "pyval \<Rightarrow> bool" where
  "str_or_falsy v = (case v of PStr s \<Rightarrow> True | _ \<Rightarrow> \<not> truthy v)"

definition hashable :: "pyval \<Rightarrow> bool" where
  "hashable v = (case v of PList xs \<Rightarrow> False | PDict kvs \<Rightarrow> False | _ \<Rightarrow> True)"

definition well_typed_input :: "pydict \<Rightarrow> bool" where
  "well_typed_input data \<longleftrightarrow>
     float_convertible (data_get data (ascii ''Area'') (PInt 70)) \<and>
     float_convertible (data_get data (ascii ''Frontage'') (PInt 0)) \<and>
     float_convertible (input_access_road data) \<and>
     float_convertible (data_get data (ascii ''Floors'') (PInt 1)) \<and>
     float_convertible (data_get data (ascii ''Bedrooms'') (PInt 2)) \<and>
     float_convertible (data_get data (ascii ''Bathrooms'') (PInt 2)) \<and>
     int_convertible (input_direction data) \<and>
     int_convertible (input_balcony_dir data) \<and>
     int_convertible (input_legal data) \<and>
     int_convertible (input_furniture data) \<and>
     str_or_falsy (input_city data) \<and>
     hashable (input_district data) \<and>
     hashable (input_ward data)"

text \<open>
  A value given for a numeric attribute that is no number: \<^verbatim>\<open>None\<close>, the empty string,
  a string the parser rejects, a list or a dictionary.
\<close>

definition malformed_number :: "builtins \<Rightarrow> pyval \<Rightarrow> bool" where
  "malformed_number B v =
     (case v of
        PNone \<Rightarrow> True
      | PStr s \<Rightarrow> s = [] \<or> str_to_float B s = None
      | PList xs \<Rightarrow> True
      | PDict kvs \<Rightarrow> True
      | _ \<Rightarrow> False)"

text \<open>The numeric request keys, each with the feature it fills.\<close>

definition NUMERIC_INPUTS :: "(pystr \<times> pystr) list" where
  "NUMERIC_INPUTS =
     [(ascii ''Area'', ascii ''Area''),
      (ascii ''Frontage'', ascii ''Frontage''),
      (ascii ''AccessRoad'', ascii ''Access Road''),
      (ascii ''Floors'', ascii ''Floors''),
      (ascii ''Bedrooms'', ascii ''Bedrooms''),
      (ascii ''Bathrooms'', ascii ''Bathrooms'')]"

subsection \<open>A runtime and a service for the evaluated examples\<close>

text \<open>
  An instance of the runtime: lower-casing of ASCII letters, a parser that accepts
  unsigned decimal digit strings, a constant hash and a constant text for numbers.
\<close>

definition digits_value :: "pystr \<Rightarrow> nat option" where
  "digits_value s =
     (if s \<noteq> [] \<and> (\<forall>c \<in> set s. 48 \<le> c \<and> c \<le> 57)
      then Some (foldl (\<lambda>n c. 10 * n + (c - 48)) 0 s) else None)"

definition example_builtins :: builtins where
  "example_builtins =
     \<lparr>str_lower = map (\<lambda>c. if 65 \<le> c \<and> c \<le> 90 then c + 32 else c),
      str_to_float = (\<lambda>s. map_option (\<lambda>n. Finite (real n)) (digits_value s)),
      hash_of = (\<lambda>v. 7),
      float_repr = (\<lambda>x. ascii ''0.0'')\<rparr>"

definition example_service :: service where
  "example_service =
     \<lparr>label_encoders =
        [ascii ''new_district'' \<mapsto> \<lparr>classes = [ascii ''Other'', ascii ''Quan 1'', ascii ''Quan 7'']\<rparr>,
         ascii ''House direction'' \<mapsto> \<lparr>classes = [ascii ''Dong'', ascii ''Tay'']\<rparr>],
      location_stats =
        Some [ascii ''Quan 7'' \<mapsto>
                [ascii ''area_mean'' \<mapsto> PFloat (Finite 82), ascii ''tier'' \<mapsto> PInt 3]]\<rparr>"

section \<open>The batch pipeline\<close>

subsection \<open>Frames\<close>

text \<open>
  A cell of a pandas column: missing (NaN or \<^verbatim>\<open>None\<close>, what \<^verbatim>\<open>isna\<close> tests), a number or
  a string. Numbers are finite floats with exact arithmetic. A frame is the list of its
  columns in column order; in a frame of the program all columns have the same length.
  A column has a numeric dtype when it holds no string, as \<^verbatim>\<open>read_csv\<close> infers it.
\<close>

datatype cell = Missing | Num real | Str pystr

type_synonym column = "cell list"
type_synonym frame = "(pystr \<times> column) list"

definition has_column :: "frame \<Rightarrow> pystr \<Rightarrow> bool" where
  "has_column df c \<longleftrightarrow> map_of df c \<noteq> None"


fun is_str :: "cell \<Rightarrow> bool" where
  "is_str (Str s) = True"
| "is_str c = False"

definition has_str :: "column \<Rightarrow> bool" where
  "has_str col \<longleftrightarrow> (\<exists>c \<in> set col. is_str c)"


fun nums :: "column \<Rightarrow> real list" where
  "nums [] = []"
| "nums (Num x # cs) = x # nums cs"
| "nums (c # cs) = nums cs"

fun strs :: "column \<Rightarrow> pystr list" where
  "strs [] = []"
| "strs (Str s # cs) = s # strs cs"
| "strs (c # cs) = strs cs"

definition dropna :: "column \<Rightarrow> column" where
  "dropna col = filter (\<lambda>c. c \<noteq> Missing) col"



text \<open>\<^verbatim>\<open>Series.unique()\<close>: the distinct values in order of first appearance.\<close>

definition unique :: "'a list \<Rightarrow> 'a list" where
  "unique xs = rev (remdups (rev xs))"

text \<open>Collecting the results of a computation that runs over the rows.\<close>

fun collect :: "(pyerr + 'a) list \<Rightarrow> pyerr + 'a list" where
  "collect [] = Inr []"
| "collect (r # rs) = py_bind r (\<lambda>x. py_bind (collect rs) (\<lambda>xs. Inr (x # xs)))"



text \<open>
  \<^verbatim>\<open>Series.mode()\<close>: the most frequent values among the cells that are not missing,
  sorted; a column that mixes numbers and strings cannot be sorted and keeps the order of
  first appearance.
\<close>

definition count_of :: "cell \<Rightarrow> column \<Rightarrow> nat" where
  "count_of v col = length (filter (\<lambda>c. c = v) col)"

definition modes :: "column \<Rightarrow> cell list" where
  "modes col =
     (let present = dropna col;
          uniq = unique present;
          top = foldr max (map (\<lambda>v. count_of v present) uniq) 0;
          cands = filter (\<lambda>v. count_of v present = top) uniq
      in if \<not> has_str cands then map Num (sort (nums cands))
         else if \<forall>c \<in> set cands. is_str c then map Str (sort (strs cands))
         else cands)"

text \<open>\<^verbatim>\<open>mode_val.iloc[0]\<close> guarded by \<^verbatim>\<open>len(mode_val) > 0\<close>.\<close>

definition first_mode :: "column \<Rightarrow> cell option" where
  "first_mode col = (case modes col of [] \<Rightarrow> None | m # ms \<Rightarrow> Some m)"


subsection \<open>The address decomposer (data\_preprocessor.py, \_parse\_location)\<close>

text \<open>\<^verbatim>\<open>s.split(',')\<close>, \<^verbatim>\<open>s.rstrip('.')\<close> and \<^verbatim>\<open>", ".join(parts)\<close>.\<close>

fun split_on :: "'a \<Rightarrow> 'a list \<Rightarrow> 'a list list" where
  "split_on sep [] = [[]]"
| "split_on sep (c # cs) =
     (if c = sep then [] # split_on sep cs
      else (case split_on sep cs of p # ps \<Rightarrow> (c # p) # ps | [] \<Rightarrow> [[c]]))"

definition rstrip_chars :: "codepoint \<Rightarrow> pystr \<Rightarrow> pystr" where
  "rstrip_chars ch s = rev (dropWhile (\<lambda>c. c = ch) (rev s))"

fun join :: "pystr \<Rightarrow> pystr list \<Rightarrow> pystr" where
  "join sep [] = []"
| "join sep [x] = x"
| "join sep (x # y # ys) = x @ sep @ join sep (y # ys)"

definition Unknown :: pystr where
  "Unknown = ascii ''Unknown''"

text \<open>
  \<^verbatim>\<open>_parse_location(addr)\<close> returns city, district and street\_ward. A cell that is not a
  non-empty string gives three times \<^verbatim>\<open>'Unknown'\<close>; \<^verbatim>\<open>parts[-1]\<close>, \<^verbatim>\<open>parts[-2]\<close> and
  \<^verbatim>\<open>parts[:-2]\<close> are read under the guard on \<^verbatim>\<open>len(parts)\<close>.
\<close>

definition parse_location :: "cell \<Rightarrow> pystr \<times> pystr \<times> pystr" where
  "parse_location addr =
     (case addr of
        Str s \<Rightarrow>
          (if s = [] then (Unknown, Unknown, Unknown)
           else
             (let parts = map strip (split_on 44 s); n = length parts
              in if 3 \<le> n then
                   (rstrip_chars 46 (last parts), parts ! (n - 2),
                    join (ascii '', '') (take (n - 2) parts))
                 else if n = 2 then
                   (rstrip_chars 46 (last parts), parts ! (n - 2), Unknown)
                 else if n = 1 then
                   (rstrip_chars 46 (parts ! 0), Unknown, Unknown)
                 else (Unknown, Unknown, Unknown)))
      | _ \<Rightarrow> (Unknown, Unknown, Unknown))"

subsection \<open>DataPreprocessor (data\_preprocessor.py)\<close>




















subsection \<open>Operations on columns\<close>

text \<open>
  \<^verbatim>\<open>df[c]\<close> raises \<^verbatim>\<open>KeyError\<close> for a column the frame does not have. Arithmetic and
  ordering comparisons raise \<^verbatim>\<open>TypeError\<close> on a string (except \<^verbatim>\<open>+\<close> on two strings, which
  concatenates); a missing operand gives a missing result, and a comparison with a missing
  cell is false.
\<close>

definition get_column :: "frame \<Rightarrow> pystr \<Rightarrow> pyerr + column" where
  "get_column frame c = (case map_of frame c of None \<Rightarrow> Inl KeyError | Some col \<Rightarrow> Inr col)"

fun cell_add :: "cell \<Rightarrow> cell \<Rightarrow> pyerr + cell" where
  "cell_add (Num a) (Num b) = Inr (Num (a + b))"
| "cell_add (Str a) (Str b) = Inr (Str (a @ b))"
| "cell_add (Str a) c = Inl TypeError"
| "cell_add c (Str b) = Inl TypeError"
| "cell_add a b = Inr Missing"

fun cell_mul :: "cell \<Rightarrow> cell \<Rightarrow> pyerr + cell" where
  "cell_mul (Num a) (Num b) = Inr (Num (a * b))"
| "cell_mul (Str a) c = Inl TypeError"
| "cell_mul c (Str b) = Inl TypeError"
| "cell_mul a b = Inr Missing"

text \<open>\<^verbatim>\<open>a / b.replace(0, 1)\<close>, cell by cell.\<close>

fun cell_div_replace :: "cell \<Rightarrow> cell \<Rightarrow> pyerr + cell" where
  "cell_div_replace (Num a) (Num b) = Inr (Num (a / (if b = 0 then 1 else b)))"
| "cell_div_replace (Str a) c = Inl TypeError"
| "cell_div_replace c (Str b) = Inl TypeError"
| "cell_div_replace a b = Inr Missing"

text \<open>\<^verbatim>\<open>(col > t).astype(int)\<close> and \<^verbatim>\<open>(col >= t).astype(int)\<close>.\<close>

fun cell_gt_int :: "real \<Rightarrow> cell \<Rightarrow> pyerr + cell" where
  "cell_gt_int t (Num a) = Inr (Num (if t < a then 1 else 0))"
| "cell_gt_int t (Str a) = Inl TypeError"
| "cell_gt_int t Missing = Inr (Num 0)"

fun cell_ge_int :: "real \<Rightarrow> cell \<Rightarrow> pyerr + cell" where
  "cell_ge_int t (Num a) = Inr (Num (if t \<le> a then 1 else 0))"
| "cell_ge_int t (Str a) = Inl TypeError"
| "cell_ge_int t Missing = Inr (Num 0)"

definition col_binop ::
  "(cell \<Rightarrow> cell \<Rightarrow> pyerr + cell) \<Rightarrow> column \<Rightarrow> column \<Rightarrow> pyerr + column" where
  "col_binop f a b = collect (map (\<lambda>ab. f (fst ab) (snd ab)) (zip a b))"

definition col_gt_int :: "real \<Rightarrow> column \<Rightarrow> pyerr + column" where
  "col_gt_int t col = collect (map (cell_gt_int t) col)"

definition col_ge_int :: "real \<Rightarrow> column \<Rightarrow> pyerr + column" where
  "col_ge_int t col = collect (map (cell_ge_int t) col)"

text \<open>\<^verbatim>\<open>(col == v).astype(int)\<close>: a missing cell equals nothing.\<close>

definition col_eq_int :: "cell \<Rightarrow> column \<Rightarrow> column" where
  "col_eq_int v col = map (\<lambda>c. Num (if c \<noteq> Missing \<and> c = v then 1 else 0)) col"

subsection \<open>basic\_preprocessing (tree\_optimized\_preprocessing.py)\<close>











text \<open>The formulas of phase 4, each a function of the frame.\<close>

definition div_columns :: "pystr \<Rightarrow> pystr \<Rightarrow> frame \<Rightarrow> pyerr + column" where
  "div_columns a b frame =
     py_bind (get_column frame a) (\<lambda>x. py_bind (get_column frame b) (\<lambda>y. col_binop cell_div_replace x y))"


definition mul_columns :: "pystr \<Rightarrow> pystr \<Rightarrow> frame \<Rightarrow> pyerr + column" where
  "mul_columns a b frame =
     py_bind (get_column frame a) (\<lambda>x. py_bind (get_column frame b) (\<lambda>y. col_binop cell_mul x y))"

definition gt_column :: "pystr \<Rightarrow> real \<Rightarrow> frame \<Rightarrow> pyerr + column" where
  "gt_column a t frame = py_bind (get_column frame a) (col_gt_int t)"

definition ge_column :: "pystr \<Rightarrow> real \<Rightarrow> frame \<Rightarrow> pyerr + column" where
  "ge_column a t frame = py_bind (get_column frame a) (col_ge_int t)"








subsection \<open>create\_interaction\_features (enhanced\_preprocessing.py)\<close>

definition assign :: "pystr \<Rightarrow> pyerr + column \<Rightarrow> frame \<Rightarrow> pyerr + frame" where
  "assign name r frame = py_bind r (\<lambda>col. Inr (AList.update name col frame))"

text \<open>
  The four major cities with the column name that
  \<^verbatim>\<open>f"area_in_{city.replace(' ', '_').lower()}"\<close> gives for each.
\<close>

definition MAJOR_CITIES :: "(pystr \<times> pystr) list" where
  "MAJOR_CITIES =
     [(ascii ''H'' @ [7891] @ ascii '' Ch'' @ [237] @ ascii '' Minh'',
       ascii ''area_in_h'' @ [7891] @ ascii ''_ch'' @ [237] @ ascii ''_minh''),
      (ascii ''H'' @ [224] @ ascii '' N'' @ [7897] @ ascii ''i'',
       ascii ''area_in_h'' @ [224] @ ascii ''_n'' @ [7897] @ ascii ''i''),
      (ascii ''B'' @ [236] @ ascii ''nh D'' @ [432, 417] @ ascii ''ng'',
       ascii ''area_in_b'' @ [236] @ ascii ''nh_d'' @ [432, 417] @ ascii ''ng''),
      ([272, 224] @ ascii '' N'' @ [7861] @ ascii ''ng'',
       ascii ''area_in_'' @ [273, 224] @ ascii ''_n'' @ [7861] @ ascii ''ng'')]"

fun area_in_cities :: "(pystr \<times> pystr) list \<Rightarrow> frame \<Rightarrow> pyerr + frame" where
  "area_in_cities [] frame = Inr frame"
| "area_in_cities (cn # rest) frame =
     py_bind (assign (snd cn)
                (py_bind (get_column frame (ascii ''Area'')) (\<lambda>area.
                 py_bind (get_column frame (ascii ''new_city'')) (\<lambda>city.
                   col_binop cell_mul area (col_eq_int (Str (fst cn)) city)))) frame)
       (area_in_cities rest)"

text \<open>
  The luxury score: the sum of four indicator columns, in the order of the source. The
  access quality: the sum of two indicator columns.
\<close>

definition luxury_score_column :: "frame \<Rightarrow> pyerr + column" where
  "luxury_score_column frame =
     py_bind (ge_column (ascii ''Bathrooms'') 4 frame) (\<lambda>bath.
     py_bind (ge_column (ascii ''Bedrooms'') 5 frame) (\<lambda>bed.
     py_bind (col_binop cell_add bath bed) (\<lambda>s1.
     py_bind (ge_column (ascii ''Floors'') 4 frame) (\<lambda>floors.
     py_bind (col_binop cell_add s1 floors) (\<lambda>s2.
     py_bind (gt_column (ascii ''Area'') 140 frame) (\<lambda>area.
     col_binop cell_add s2 area))))))"

definition access_quality_column :: "frame \<Rightarrow> pyerr + column" where
  "access_quality_column frame =
     py_bind (gt_column (ascii ''Access Road'') 0 frame) (\<lambda>road.
     py_bind (gt_column (ascii ''Frontage'') 0 frame) (\<lambda>frontage.
     col_binop cell_add road frontage))"

definition create_interaction_features :: "frame \<Rightarrow> pyerr + frame" where
  "create_interaction_features df0 =
     py_bind (if has_column df0 (ascii ''Area'') \<and> has_column df0 (ascii ''Bathrooms'')
              then assign (ascii ''area_x_bathrooms'')
                     (mul_columns (ascii ''Area'') (ascii ''Bathrooms'') df0) df0
              else Inr df0) (\<lambda>df1.
     py_bind (if has_column df1 (ascii ''Area'') \<and> has_column df1 (ascii ''Bedrooms'')
              then assign (ascii ''area_x_bedrooms'')
                     (mul_columns (ascii ''Area'') (ascii ''Bedrooms'') df1) df1
              else Inr df1) (\<lambda>df2.
     py_bind (if has_column df2 (ascii ''Area'') \<and> has_column df2 (ascii ''Floors'')
              then assign (ascii ''area_x_floors'')
                     (mul_columns (ascii ''Area'') (ascii ''Floors'') df2) df2
              else Inr df2) (\<lambda>df3.
     py_bind (if has_column df3 (ascii ''Bedrooms'') \<and> has_column df3 (ascii ''Bathrooms'')
              then assign (ascii ''bedrooms_x_bathrooms'')
                     (mul_columns (ascii ''Bedrooms'') (ascii ''Bathrooms'') df3) df3
              else Inr df3) (\<lambda>df4.
     py_bind (if has_column df4 (ascii ''Bedrooms'') \<and> has_column df4 (ascii ''Floors'')
              then assign (ascii ''bedrooms_x_floors'')
                     (mul_columns (ascii ''Bedrooms'') (ascii ''Floors'') df4) df4
              else Inr df4) (\<lambda>df5.
     py_bind (if \<forall>c \<in> set [ascii ''Bathrooms'', ascii ''Bedrooms'', ascii ''Floors'', ascii ''Area''].
                   has_column df5 c
              then assign (ascii ''luxury_score'') (luxury_score_column df5) df5
              else Inr df5) (\<lambda>df6.
     py_bind (if has_column df6 (ascii ''new_city'') \<and> has_column df6 (ascii ''Area'')
              then area_in_cities MAJOR_CITIES df6 else Inr df6) (\<lambda>df7.
     py_bind (if has_column df7 (ascii ''Area'') \<and> has_column df7 (ascii ''new_total_rooms'')
              then assign (ascii ''room_density'')
                     (div_columns (ascii ''new_total_rooms'') (ascii ''Area'') df7) df7
              else Inr df7) (\<lambda>df8.
     if has_column df8 (ascii ''Access Road'') \<and> has_column df8 (ascii ''Frontage'')
     then assign (ascii ''access_quality'') (access_quality_column df8) df8
     else Inr df8))))))))"

text \<open>A column of the frame a batch stage returns; \<open>None\<close> when the stage raised.\<close>

definition result_column :: "pyerr + frame \<Rightarrow> pystr \<Rightarrow> column option" where
  "result_column r c = (case r of Inl e \<Rightarrow> None | Inr frame \<Rightarrow> map_of frame c)"

subsection \<open>split\_and\_encode (tree\_optimized\_preprocessing.py)\<close>

text \<open>
  The orchestrator works on the four partitions that \<^verbatim>\<open>train_test_split\<close> returns:
  \<^verbatim>\<open>X_train\<close>, \<^verbatim>\<open>y_train\<close>, \<^verbatim>\<open>X_test\<close>, \<^verbatim>\<open>y_test\<close>. The entries of \<^verbatim>\<open>config\<close> it reads in
  phase 1.5 and phase 3 are the fields below; \<open>None\<close> is an entry that is not given.
\<close>

record outlier_config =
  outlier_enabled :: "bool option"
  outlier_method :: "pystr option"
  iqr_multiplier :: "real option"

record encoding_config =
  low_cardinality_columns :: "pystr list"
  high_cardinality_columns :: "pystr list"

text \<open>
  \<^verbatim>\<open>Series.quantile(q)\<close> with linear interpolation: missing cells are skipped, no value
  gives NaN, a string raises.
\<close>

definition quantile :: "real \<Rightarrow> column \<Rightarrow> pyerr + cell" where
  "quantile q col =
     (if has_str col then Inl TypeError
      else (let v = sort (nums col); n = length v
            in if n = 0 then Inr Missing
               else (let pos = real (n - 1) * q; lo = nat \<lfloor>pos\<rfloor>; hi = nat \<lceil>pos\<rceil>
                     in Inr (Num (v ! lo + (v ! hi - v ! lo) * (pos - real lo))))))"

text \<open>
  The bounds \<^verbatim>\<open>Q1 - multiplier * IQR\<close> and \<^verbatim>\<open>Q3 + multiplier * IQR\<close>; \<open>None\<close> when the
  quartiles are NaN.
\<close>

definition iqr_bounds :: "real \<Rightarrow> column \<Rightarrow> pyerr + (real \<times> real) option" where
  "iqr_bounds multiplier y =
     py_bind (quantile 0.25 y) (\<lambda>Q1.
     py_bind (quantile 0.75 y) (\<lambda>Q3.
       Inr (case (Q1, Q3) of
              (Num q1, Num q3) \<Rightarrow> Some (q1 - multiplier * (q3 - q1), q3 + multiplier * (q3 - q1))
            | _ \<Rightarrow> None)))"

text \<open>\<^verbatim>\<open>(y >= lower) & (y <= upper)\<close> on one cell: false on a missing cell and on NaN bounds.\<close>

definition within_bounds :: "(real \<times> real) option \<Rightarrow> cell \<Rightarrow> bool" where
  "within_bounds bounds c =
     (case (bounds, c) of
        (Some (lower, upper), Num x) \<Rightarrow> lower \<le> x \<and> x \<le> upper
      | _ \<Rightarrow> False)"

text \<open>\<^verbatim>\<open>X[mask]\<close>: the rows of every column where the mask is true.\<close>

definition select_rows :: "bool list \<Rightarrow> column \<Rightarrow> column" where
  "select_rows keep col = map snd (filter fst (zip keep col))"

definition filter_rows :: "bool list \<Rightarrow> frame \<Rightarrow> frame" where
  "filter_rows keep frame = map (\<lambda>p. (fst p, select_rows keep (snd p))) frame"

text \<open>Phase 1.5 of \<^verbatim>\<open>split_and_encode\<close> (lines 377 to 405): outlier removal.\<close>

definition split_and_encode_phase_1_5 ::
  "outlier_config \<Rightarrow> frame \<times> column \<times> frame \<times> column \<Rightarrow> pyerr + (frame \<times> column \<times> frame \<times> column)" where
  "split_and_encode_phase_1_5 config parts =
     (case parts of (X_train, y_train, X_test, y_test) \<Rightarrow>
        (if (case outlier_enabled config of None \<Rightarrow> True | Some b \<Rightarrow> b) then
           (let method = (case outlier_method config of None \<Rightarrow> ascii ''iqr'' | Some m \<Rightarrow> m)
            in if method = ascii ''iqr'' then
                 (let multiplier = (case iqr_multiplier config of None \<Rightarrow> 1.5 | Some m \<Rightarrow> m)
                  in py_bind (iqr_bounds multiplier y_train) (\<lambda>bounds.
                       let mask = map (within_bounds bounds) y_train
                       in Inr (filter_rows mask X_train, select_rows mask y_train, X_test, y_test)))
               else Inr (X_train, y_train, X_test, y_test))
         else Inr (X_train, y_train, X_test, y_test)))"

text \<open>
  \<^verbatim>\<open>LabelEncoder\<close>: \<^verbatim>\<open>fit\<close> stores the sorted distinct values; \<^verbatim>\<open>transform\<close> gives the
  position of a value among them and raises \<^verbatim>\<open>ValueError\<close> on a value that is not there.
\<close>

definition label_encoder_fit :: "pystr list \<Rightarrow> label_encoder" where
  "label_encoder_fit vals = \<lparr>classes = sort (remdups vals)\<rparr>"

definition label_encoder_transform :: "label_encoder \<Rightarrow> pystr \<Rightarrow> pyerr + int" where
  "label_encoder_transform le v =
     (if v \<in> set (classes le) then Inr (int (index_of (classes le) v)) else Inl ValueError)"

text \<open>\<^verbatim>\<open>astype(str)\<close> on a cell: a missing cell is the text \<^verbatim>\<open>nan\<close>.\<close>

definition astype_str :: "builtins \<Rightarrow> cell \<Rightarrow> pystr" where
  "astype_str B c = (case c of Missing \<Rightarrow> ascii ''nan'' | Num x \<Rightarrow> float_repr B x | Str s \<Rightarrow> s)"

text \<open>
  The body of the loop of phase 3 (lines 444 to 461) for one column: a fresh encoder is
  fitted on the training column and stored in \<^verbatim>\<open>label_encoders\<close> (\<open>encoders\<close>); a test value among its
  classes is transformed, any other gets \<open>-1\<close>.
\<close>

definition encode_test_value :: "label_encoder \<Rightarrow> pystr \<Rightarrow> pyerr + int" where
  "encode_test_value le val =
     (if val \<in> set (classes le) then label_encoder_transform le val else Inr (- 1))"

definition encode_column ::
  "builtins \<Rightarrow> frame \<times> frame \<times> (pystr \<rightharpoonup> label_encoder) \<Rightarrow> pystr
     \<Rightarrow> pyerr + (frame \<times> frame \<times> (pystr \<rightharpoonup> label_encoder))" where
  "encode_column B st col =
     (case st of (X_train, X_test, encoders) \<Rightarrow>
        py_bind (get_column X_train col) (\<lambda>train_col.
        let train_values = map (astype_str B) train_col;
            le = label_encoder_fit train_values
        in py_bind (collect (map (label_encoder_transform le) train_values)) (\<lambda>train_codes.
           py_bind (get_column X_test col) (\<lambda>test_col.
           py_bind (collect (map (encode_test_value le) (map (astype_str B) test_col))) (\<lambda>encoded.
             Inr (AList.update col (map (\<lambda>n. Num (real_of_int n)) train_codes) X_train,
                  AList.update col (map (\<lambda>n. Num (real_of_int n)) encoded) X_test,
                  encoders(col \<mapsto> le)))))))"

fun encode_columns ::
  "builtins \<Rightarrow> pystr list \<Rightarrow> frame \<times> frame \<times> (pystr \<rightharpoonup> label_encoder)
     \<Rightarrow> pyerr + (frame \<times> frame \<times> (pystr \<rightharpoonup> label_encoder))" where
  "encode_columns B [] st = Inr st"
| "encode_columns B (col # cols) st = py_bind (encode_column B st col) (encode_columns B cols)"

text \<open>Phase 3 of \<^verbatim>\<open>split_and_encode\<close> (lines 429 to 461): label encoding.\<close>

definition split_and_encode_phase_3 ::
  "builtins \<Rightarrow> encoding_config \<Rightarrow> frame \<times> frame
     \<Rightarrow> pyerr + (frame \<times> frame \<times> (pystr \<rightharpoonup> label_encoder))" where
  "split_and_encode_phase_3 B config parts =
     (case parts of (X_train, X_test) \<Rightarrow>
        (let low_card_cols = filter (has_column X_train) (low_cardinality_columns config);
             high_card_cols = filter (has_column X_train) (high_cardinality_columns config);
             all_cat_cols = low_card_cols @ high_card_cols
         in encode_columns B all_cat_cols (X_train, X_test, Map.empty)))"

subsection \<open>Missing values in a frame\<close>









text \<open>A column obtained from another by giving values to some of its missing cells.\<close>

definition fills_only :: "column \<Rightarrow> column \<Rightarrow> bool" where
  "fills_only col col' \<longleftrightarrow>
     length col' = length col \<and>
     (\<forall>i < length col. col' ! i = col ! i \<or> (col ! i = Missing \<and> col' ! i \<noteq> Missing))"



section \<open>Properties\<close>

subsection \<open>The column order of the feature vector\<close>

lemma py_bind_Inr: "py_bind m f = Inr r \<longleftrightarrow> (\<exists>x. m = Inr x \<and> f x = Inr r)"
  by (cases m) (simp_all add: py_bind_def)

lemma fst_result_step:
  "map_of (fst (result_step p acc x)) =
     (map_of (fst acc))(x \<mapsto> (case p x of Some v \<Rightarrow> v | None \<Rightarrow> PInt 0))"
  by (simp add: result_step_def AList.update_conv' split: option.splits)


lemma map_of_foldl_result_step:
  "map_of (fst (foldl (result_step p) acc fs)) f =
     (if f \<in> set fs then Some (case p f of Some v \<Rightarrow> v | None \<Rightarrow> PInt 0) else map_of (fst acc) f)"
proof (induction fs arbitrary: acc rule: rev_induct)
  case Nil
  show ?case by simp
next
  case (snoc x xs)
  show ?case
    by (simp add: snoc.IH fst_result_step)
qed


lemma select_columns_present:
  "\<forall>c \<in> set cs. map_of row c \<noteq> None \<Longrightarrow>
     select_columns row cs = Inr (map (\<lambda>c. (c, the (map_of row c))) cs)"
  by (induction cs) (auto simp: py_bind_def)

lemma map_of_tabulate:
  "map_of (map (\<lambda>c. (c, g c)) cs) f = (if f \<in> set cs then Some (g f) else None)"
  by (induction cs) auto

lemma create_dataframe_result:
  "preprocess_create_dataframe p =
     Inr (map (\<lambda>c. (c, case p c of Some v \<Rightarrow> v | None \<Rightarrow> PInt 0)) EXPECTED_FEATURES,
          snd (build_result p EXPECTED_FEATURES) @ [PreprocessedInfo (length EXPECTED_FEATURES)])"
proof -
  obtain result logged where b: "build_result p EXPECTED_FEATURES = (result, logged)"
    by (cases "build_result p EXPECTED_FEATURES")
  have m: "map_of result f =
      (if f \<in> set EXPECTED_FEATURES then Some (case p f of Some v \<Rightarrow> v | None \<Rightarrow> PInt 0) else None)" for f
    using map_of_foldl_result_step [of p "([], [])" EXPECTED_FEATURES f] b
    by (simp add: build_result_def)
  have "select_columns result EXPECTED_FEATURES =
      Inr (map (\<lambda>c. (c, the (map_of result c))) EXPECTED_FEATURES)"
    by (rule select_columns_present) (simp add: m)
  also have "map (\<lambda>c. (c, the (map_of result c))) EXPECTED_FEATURES =
      map (\<lambda>c. (c, case p c of Some v \<Rightarrow> v | None \<Rightarrow> PInt 0)) EXPECTED_FEATURES"
    by (rule map_cong) (simp_all add: m)
  finally show ?thesis
    by (simp add: preprocess_create_dataframe_def b py_bind_def)
qed



subsection \<open>What the method reads back\<close>

lemma Inr_py_bind: "Inr r = py_bind m f \<longleftrightarrow> (\<exists>x. m = Inr x \<and> Inr r = f x)"
  by (cases m) (simp_all add: py_bind_def)

lemma py_bind_total:
  "\<exists>x. m = Inr x \<Longrightarrow> (\<And>x. \<exists>r. f x = Inr r) \<Longrightarrow> \<exists>r. py_bind m f = Inr r"
  by (auto simp: py_bind_def)


lemma map_of_frame:
  assumes "f \<in> set EXPECTED_FEATURES" and "p f = Some v"
  shows "map_of (map (\<lambda>c. (c, case p c of Some v \<Rightarrow> v | None \<Rightarrow> PInt 0)) EXPECTED_FEATURES) f = Some v"
  using assms by (simp add: map_of_tabulate)

lemma feature_preprocess:
  assumes "preprocess_processed B svc data = Inr p" and "f \<in> set EXPECTED_FEATURES" and "p f = Some v"
  shows "feature (preprocess B svc data) f = Some v"
  using assms by (simp add: feature_def preprocess_def py_bind_def create_dataframe_result map_of_tabulate)

lemma expected_members:
  "ascii ''Area'' \<in> set EXPECTED_FEATURES"
  "ascii ''Frontage'' \<in> set EXPECTED_FEATURES"
  "ascii ''Access Road'' \<in> set EXPECTED_FEATURES"
  "ascii ''Floors'' \<in> set EXPECTED_FEATURES"
  "ascii ''Bedrooms'' \<in> set EXPECTED_FEATURES"
  "ascii ''Bathrooms'' \<in> set EXPECTED_FEATURES"
  "ascii ''House direction'' \<in> set EXPECTED_FEATURES"
  "ascii ''Balcony direction'' \<in> set EXPECTED_FEATURES"
  "ascii ''Legal status'' \<in> set EXPECTED_FEATURES"
  "ascii ''Furniture state'' \<in> set EXPECTED_FEATURES"
  "ascii ''new_has_balcony_direction'' \<in> set EXPECTED_FEATURES"
  "ascii ''new_has_house_direction'' \<in> set EXPECTED_FEATURES"
  "ascii ''new_city'' \<in> set EXPECTED_FEATURES"
  "ascii ''new_district'' \<in> set EXPECTED_FEATURES"
  "ascii ''new_street_ward'' \<in> set EXPECTED_FEATURES"
  "ascii ''luxury_score'' \<in> set EXPECTED_FEATURES"
  "ascii ''access_quality'' \<in> set EXPECTED_FEATURES"
  "ascii ''new_district_area_mean'' \<in> set EXPECTED_FEATURES"
  "ascii ''new_district_area_median'' \<in> set EXPECTED_FEATURES"
  "ascii ''new_district_area_std'' \<in> set EXPECTED_FEATURES"
  "ascii ''new_district_sample_count'' \<in> set EXPECTED_FEATURES"
  "ascii ''new_district_tier'' \<in> set EXPECTED_FEATURES"
  by (simp_all add: EXPECTED_FEATURES_def)

text \<open>The local variables of a call that returned, with the entries of \<^verbatim>\<open>processed\<close>.\<close>

lemma processed_numeric:
  assumes "preprocess_processed B svc data = Inr p"
  shows "\<exists>area frontage access_road floors bedrooms bathrooms.
     to_float B (data_get data (ascii ''Area'') (PInt 70)) (Finite 0) = Inr area \<and>
     to_float B (data_get data (ascii ''Frontage'') (PInt 0)) (Finite 0) = Inr frontage \<and>
     to_float B (input_access_road data) (Finite 0) = Inr access_road \<and>
     to_float B (data_get data (ascii ''Floors'') (PInt 1)) (Finite 0) = Inr floors \<and>
     to_float B (data_get data (ascii ''Bedrooms'') (PInt 2)) (Finite 0) = Inr bedrooms \<and>
     to_float B (data_get data (ascii ''Bathrooms'') (PInt 2)) (Finite 0) = Inr bathrooms \<and>
     p (ascii ''Area'') = Some (PFloat area) \<and>
     p (ascii ''Frontage'') = Some (PFloat frontage) \<and>
     p (ascii ''Access Road'') = Some (PFloat access_road) \<and>
     p (ascii ''Floors'') = Some (PFloat floors) \<and>
     p (ascii ''Bedrooms'') = Some (PFloat bedrooms) \<and>
     p (ascii ''Bathrooms'') = Some (PFloat bathrooms)"
  using assms [symmetric]
  unfolding preprocess_processed_def Let_def Inr_py_bind input_access_road_def
  by (elim exE conjE) (simp add: ascii_def)

lemma processed_categorical:
  assumes "preprocess_processed B svc data = Inr p"
  shows "\<exists>house balcony legal furniture.
     encode_direction B (input_direction data) = Inr house \<and>
     encode_direction B (input_balcony_dir data) = Inr balcony \<and>
     encode_legal_status B (input_legal data) = Inr legal \<and>
     encode_furniture B (input_furniture data) = Inr furniture \<and>
     p (ascii ''House direction'') = Some (PInt house) \<and>
     p (ascii ''Balcony direction'') = Some (PInt balcony) \<and>
     p (ascii ''Legal status'') = Some (PInt legal) \<and>
     p (ascii ''Furniture state'') = Some (PInt furniture) \<and>
     p (ascii ''new_has_house_direction'') = Some (of_flag (truthy (input_direction data))) \<and>
     p (ascii ''new_has_balcony_direction'') = Some (of_flag (truthy (input_balcony_dir data)))"
  using assms [symmetric]
  unfolding preprocess_processed_def Let_def Inr_py_bind input_direction_def
    input_balcony_dir_def input_legal_def input_furniture_def
  by (elim exE conjE) (simp add: ascii_def)

lemma processed_scores:
  assumes "preprocess_processed B svc data = Inr p"
  shows "\<exists>area access_road bathrooms furniture.
     p (ascii ''Area'') = Some (PFloat area) \<and>
     p (ascii ''Access Road'') = Some (PFloat access_road) \<and>
     p (ascii ''Bathrooms'') = Some (PFloat bathrooms) \<and>
     p (ascii ''Furniture state'') = Some (PInt furniture) \<and>
     p (ascii ''luxury_score'') = Some (PInt
        ((if f_ge bathrooms (Finite 3) then 1 else 0) +
         (if f_gt area (Finite 100) then 1 else 0) +
         (if furniture = 0 \<or> furniture = 1 then 1 else 0))) \<and>
     p (ascii ''access_quality'') = Some (PInt
        (if f_eq access_road (Finite 0) then 0
         else if f_lt access_road (Finite 5) then 1 else 2))"
  using assms [symmetric]
  unfolding preprocess_processed_def Let_def Inr_py_bind
  by (elim exE conjE) (simp add: ascii_def)


subsection \<open>When the method returns\<close>

lemma to_float_total: "float_convertible v \<Longrightarrow> \<exists>f. to_float B v d = Inr f"
  by (cases v) (auto simp: to_float_def float_convertible_def split: option.splits)

lemma encode_direction_total:
  assumes "int_convertible v"
  shows "\<exists>c. encode_direction B v = Inr c"
proof (cases v)
  case (PFloat f)
  with assms show ?thesis by (cases f) (auto simp: encode_direction_def int_convertible_def)
qed (auto simp: encode_direction_def)

lemma encode_legal_status_total:
  assumes "int_convertible v"
  shows "\<exists>c. encode_legal_status B v = Inr c"
proof (cases v)
  case (PFloat f)
  with assms show ?thesis by (cases f) (auto simp: encode_legal_status_def int_convertible_def)
qed (auto simp: encode_legal_status_def)

lemma encode_furniture_total:
  assumes "int_convertible v"
  shows "\<exists>c. encode_furniture B v = Inr c"
proof (cases v)
  case (PFloat f)
  with assms show ?thesis by (cases f) (auto simp: encode_furniture_def int_convertible_def)
qed (auto simp: encode_furniture_def)

lemma normalize_city_total: "str_or_falsy v \<Longrightarrow> \<exists>c. normalize_city B v = Inr c"
  by (cases v) (auto simp: normalize_city_def str_or_falsy_def)

lemma encode_categorical_total: "hashable v \<Longrightarrow> \<exists>c. encode_categorical B svc col v = Inr c"
  by (cases v) (auto simp: encode_categorical_def hashable_def py_bind_def split: option.splits)

lemma lookup_location_stats_total: "hashable v \<Longrightarrow> \<exists>r. lookup_location_stats svc v = Inr r"
  by (cases v) (auto simp: lookup_location_stats_def hashable_def split: option.splits)

text \<open>The divisors of the method are \<^verbatim>\<open>max(x, 1)\<close>: at least 1 or NaN, never zero.\<close>

lemma f_div_max_total: "\<exists>q. f_div a (f_max x (Finite 1)) = Inr q"
proof (cases x)
  case (Finite r)
  then show ?thesis by (cases a) (auto simp: f_max_def f_gt_def)
next
  case PosInf
  then show ?thesis by (cases a) (auto simp: f_max_def f_gt_def)
next
  case NegInf
  then show ?thesis by (cases a) (auto simp: f_max_def f_gt_def)
next
  case NaN
  then show ?thesis by (cases a) (auto simp: f_max_def f_gt_def)
qed

lemma preprocess_processed_total:
  assumes "well_typed_input data"
  shows "\<exists>p. preprocess_processed B svc data = Inr p"
  using assms
  unfolding preprocess_processed_def well_typed_input_def Let_def
    input_access_road_def input_direction_def input_balcony_dir_def input_legal_def
    input_furniture_def input_city_def input_district_def input_ward_def
  apply (intro py_bind_total to_float_total encode_direction_total encode_legal_status_total
        encode_furniture_total normalize_city_total encode_categorical_total
        lookup_location_stats_total f_div_max_total)
  apply ((elim conjE, assumption) | (simp only: hashable_def pyval.case) | (rule exI, rule refl))+
  done

lemma to_float_malformed:
  assumes "malformed_number B v"
  shows "to_float B v d = Inr d"
  using assms by (cases v) (auto simp: to_float_def malformed_number_def)

lemma to_float_small_int:
  assumes "\<bar>n\<bar> < 2 ^ 1024 - 2 ^ 970"
  shows "to_float B (PInt n) d = Inr (Finite (real_of_int n))"
  using assms by (simp add: to_float_def)

subsection \<open>Claims about the online preprocessor\<close>





text \<open>
  C10 (as stated). The method is not total on request dictionaries: a city that is a
  number reaches \<^verbatim>\<open>city.lower()\<close> and the call raises \<^verbatim>\<open>AttributeError\<close>.
\<close>

theorem numeric_city_counterexample:
  "preprocess example_builtins example_service [ascii ''City'' \<mapsto> PInt 5] = Inl AttributeError"
  by (simp add: preprocess_def preprocess_processed_def py_bind_def to_float_def data_get_def
        ascii_def encode_direction_def encode_legal_status_def encode_furniture_def
        normalize_city_def dict_get_def strip_def lstrip_def rstrip_def py_lower_def
        DIRECTION_MAPPING_def LEGAL_STATUS_MAPPING_def FURNITURE_MAPPING_def)

text \<open>
  C10 (amended). On every request in which no value defeats a conversion that the method
  leaves unguarded (\<open>well_typed_input\<close>: a city that is a string or falsy, no NaN or
  infinity for a direction, legal status or furniture state, no list or dictionary for
  district or ward, no integer outside the range of a double for a numeric attribute),
  \<^verbatim>\<open>preprocess\<close> returns a feature vector; this covers absent keys, empty strings,
  \<^verbatim>\<open>None\<close> and values that are not numbers. A numeric attribute that is present but is
  \<^verbatim>\<open>None\<close>, empty, an unparsable string, a list or a dictionary becomes 0.0, the default of
  \<^verbatim>\<open>_to_float\<close>, whatever the attribute.
\<close>

theorem preprocess_returns_on_well_typed_input:
  assumes "well_typed_input data"
  shows "\<exists>df logged. preprocess B svc data = Inr (df, logged) \<and>
     (\<forall>(k, f) \<in> set NUMERIC_INPUTS. \<forall>v. data k = Some v \<and> malformed_number B v \<longrightarrow>
        map_of df f = Some (PFloat (Finite 0)))"
proof -
  obtain p where p: "preprocess_processed B svc data = Inr p"
    using preprocess_processed_total [OF assms] by blast
  then obtain df logged where r: "preprocess B svc data = Inr (df, logged)"
    and df: "df = map (\<lambda>c. (c, case p c of Some v \<Rightarrow> v | None \<Rightarrow> PInt 0)) EXPECTED_FEATURES"
    by (simp add: preprocess_def py_bind_def create_dataframe_result)
  from processed_numeric [OF p] obtain area frontage access_road floors bedrooms bathrooms where n:
    "to_float B (data_get data (ascii ''Area'') (PInt 70)) (Finite 0) = Inr area"
    "to_float B (data_get data (ascii ''Frontage'') (PInt 0)) (Finite 0) = Inr frontage"
    "to_float B (input_access_road data) (Finite 0) = Inr access_road"
    "to_float B (data_get data (ascii ''Floors'') (PInt 1)) (Finite 0) = Inr floors"
    "to_float B (data_get data (ascii ''Bedrooms'') (PInt 2)) (Finite 0) = Inr bedrooms"
    "to_float B (data_get data (ascii ''Bathrooms'') (PInt 2)) (Finite 0) = Inr bathrooms"
    and pn: "p (ascii ''Area'') = Some (PFloat area)"
    "p (ascii ''Frontage'') = Some (PFloat frontage)"
    "p (ascii ''Access Road'') = Some (PFloat access_road)"
    "p (ascii ''Floors'') = Some (PFloat floors)"
    "p (ascii ''Bedrooms'') = Some (PFloat bedrooms)"
    "p (ascii ''Bathrooms'') = Some (PFloat bathrooms)"
    by blast
  have v: "map_of df (ascii ''Area'') = Some (PFloat area)"
    "map_of df (ascii ''Frontage'') = Some (PFloat frontage)"
    "map_of df (ascii ''Access Road'') = Some (PFloat access_road)"
    "map_of df (ascii ''Floors'') = Some (PFloat floors)"
    "map_of df (ascii ''Bedrooms'') = Some (PFloat bedrooms)"
    "map_of df (ascii ''Bathrooms'') = Some (PFloat bathrooms)"
    by (simp_all add: df map_of_tabulate expected_members pn)
  have "\<forall>(k, f) \<in> set NUMERIC_INPUTS. \<forall>v. data k = Some v \<and> malformed_number B v \<longrightarrow>
        map_of df f = Some (PFloat (Finite 0))"
    unfolding NUMERIC_INPUTS_def
    using n by (auto simp: v data_get_def input_access_road_def to_float_malformed)
  with r show ?thesis by blast
qed

theorem preprocess_returns_on_well_typed_input_witness:
  "well_typed_input [ascii ''Area'' \<mapsto> PStr (ascii ''abc''), ascii ''Bedrooms'' \<mapsto> PNone,
      ascii ''City'' \<mapsto> PStr [], ascii ''Direction'' \<mapsto> PNone] \<and>
   (\<exists>df logged.
      preprocess example_builtins example_service
        [ascii ''Area'' \<mapsto> PStr (ascii ''abc''), ascii ''Bedrooms'' \<mapsto> PNone,
         ascii ''City'' \<mapsto> PStr [], ascii ''Direction'' \<mapsto> PNone] = Inr (df, logged) \<and>
      map_of df (ascii ''Area'') = Some (PFloat (Finite 0)) \<and>
      map_of df (ascii ''Bedrooms'') = Some (PFloat (Finite 0)))"
proof -
  let ?data = "[ascii ''Area'' \<mapsto> PStr (ascii ''abc''), ascii ''Bedrooms'' \<mapsto> PNone,
      ascii ''City'' \<mapsto> PStr [], ascii ''Direction'' \<mapsto> PNone]"
  have wt: "well_typed_input ?data"
    by (simp add: well_typed_input_def data_get_def input_access_road_def input_direction_def
          input_balcony_dir_def input_legal_def input_furniture_def input_city_def
          input_district_def input_ward_def float_convertible_def int_convertible_def
          str_or_falsy_def hashable_def ascii_def)
  have m: "malformed_number example_builtins (PStr (ascii ''abc''))"
    "malformed_number example_builtins PNone"
    by (simp_all add: malformed_number_def example_builtins_def digits_value_def ascii_def)
  have k: "(ascii ''Area'', ascii ''Area'') \<in> set NUMERIC_INPUTS"
    "(ascii ''Bedrooms'', ascii ''Bedrooms'') \<in> set NUMERIC_INPUTS"
    by (simp_all add: NUMERIC_INPUTS_def)
  have d: "?data (ascii ''Area'') = Some (PStr (ascii ''abc''))"
    "?data (ascii ''Bedrooms'') = Some PNone"
    by (simp_all add: ascii_def)
  from preprocess_returns_on_well_typed_input [OF wt, of example_builtins example_service]
  obtain df logged where r: "preprocess example_builtins example_service ?data = Inr (df, logged)"
    and a: "\<forall>(k, f) \<in> set NUMERIC_INPUTS. \<forall>v. ?data k = Some v \<and> malformed_number example_builtins v \<longrightarrow>
        map_of df f = Some (PFloat (Finite 0))"
    by blast
  from a k(1) d(1) m(1) have "map_of df (ascii ''Area'') = Some (PFloat (Finite 0))"
    by blast
  moreover from a k(2) d(2) m(2) have "map_of df (ascii ''Bedrooms'') = Some (PFloat (Finite 0))"
    by blast
  ultimately show ?thesis
    using wt r by blast
qed



subsection \<open>The address decomposer\<close>

lemma split_on_nonempty: "split_on sep s \<noteq> []"
  by (induction s) (auto split: list.splits)

lemma split_on_no_sep: "sep \<notin> set s \<Longrightarrow> split_on sep s = [s]"
  by (induction s) auto

lemma split_on_append_sep:
  "sep \<notin> set x \<Longrightarrow> split_on sep (x @ sep # rest) = x # split_on sep rest"
  by (induction x) (auto split: list.splits simp: split_on_nonempty)

lemma split_on_join:
  assumes "\<forall>seg \<in> set segs. sep \<notin> set seg" and "segs \<noteq> []"
  shows "split_on sep (join [sep] segs) = segs"
  using assms
proof (induction segs)
  case Nil
  then show ?case by simp
next
  case (Cons x xs)
  show ?case
  proof (cases xs)
    case Nil
    with Cons.prems show ?thesis by (simp add: split_on_no_sep)
  next
    case (Cons y ys)
    with Cons.prems Cons.IH show ?thesis by (simp add: split_on_append_sep)
  qed
qed

text \<open>
  C5. An address is its comma-separated segments. With three or more segments the city is
  the stripped last segment without its trailing periods, the district the stripped
  second-to-last one and street\_ward the stripped leading segments joined with
  \<^verbatim>\<open>", "\<close>; with two segments street\_ward is \<^verbatim>\<open>'Unknown'\<close>; with one segment district and
  street\_ward are \<^verbatim>\<open>'Unknown'\<close>; the empty string and a cell that is not a string give
  \<^verbatim>\<open>'Unknown'\<close> three times. The function is total: nothing is raised.
\<close>

theorem parse_location_segments:
  assumes "\<forall>seg \<in> set segs. 44 \<notin> set seg" and "segs \<noteq> []" and "join [44] segs \<noteq> []"
  shows "(3 \<le> length segs \<longrightarrow>
            parse_location (Str (join [44] segs)) =
              (rstrip_chars 46 (strip (last segs)),
               strip (segs ! (length segs - 2)),
               join (ascii '', '') (map strip (take (length segs - 2) segs)))) \<and>
         (length segs = 2 \<longrightarrow>
            parse_location (Str (join [44] segs)) =
              (rstrip_chars 46 (strip (last segs)), strip (segs ! 0), Unknown)) \<and>
         (length segs = 1 \<longrightarrow>
            parse_location (Str (join [44] segs)) =
              (rstrip_chars 46 (strip (segs ! 0)), Unknown, Unknown)) \<and>
         parse_location (Str []) = (Unknown, Unknown, Unknown) \<and>
         parse_location Missing = (Unknown, Unknown, Unknown) \<and>
         parse_location (Num x) = (Unknown, Unknown, Unknown)"
proof -
  have s: "split_on 44 (join [44] segs) = segs"
    using assms(1,2) by (rule split_on_join)
  have l: "last (map strip segs) = strip (last segs)"
    using assms(2) by (simp add: last_map)
  show ?thesis
    using assms(2,3)
    by (auto simp: parse_location_def s l Let_def take_map)
qed

theorem parse_location_segments_witness:
  "parse_location
     (Str (ascii ''12 L'' @ [234] @ ascii '' L'' @ [7907] @ ascii ''i, Ph'' @ [432, 7901] @
           ascii ''ng B'' @ [7871] @ ascii ''n Ngh'' @ [233] @ ascii '', Qu'' @ [7853] @
           ascii ''n 1, H'' @ [7891] @ ascii '' Ch'' @ [237] @ ascii '' Minh.'')) =
     (ascii ''H'' @ [7891] @ ascii '' Ch'' @ [237] @ ascii '' Minh'',
      ascii ''Qu'' @ [7853] @ ascii ''n 1'',
      ascii ''12 L'' @ [234] @ ascii '' L'' @ [7907] @ ascii ''i, Ph'' @ [432, 7901] @
        ascii ''ng B'' @ [7871] @ ascii ''n Ngh'' @ [233])"
proof -
  let ?segs = "[ascii ''12 L'' @ [234] @ ascii '' L'' @ [7907] @ ascii ''i'',
                ascii '' Ph'' @ [432, 7901] @ ascii ''ng B'' @ [7871] @ ascii ''n Ngh'' @ [233],
                ascii '' Qu'' @ [7853] @ ascii ''n 1'',
                ascii '' H'' @ [7891] @ ascii '' Ch'' @ [237] @ ascii '' Minh.'']"
  have a: "\<forall>seg \<in> set ?segs. 44 \<notin> set seg"
    by (simp add: ascii_def)
  have b: "?segs \<noteq> []" and c: "join [44] ?segs \<noteq> []"
    by (simp_all add: ascii_def)
  show ?thesis
    using parse_location_segments [OF a b c]
    by (simp add: ascii_def strip_def lstrip_def rstrip_def rstrip_chars_def is_space_def)
qed

subsection \<open>Luxury score and access quality, online and in the batch pipeline\<close>







text \<open>
  C6. One record through both paths: area 120, 3 bathrooms, 2 bedrooms, 1 floor, no
  furniture given. The online preprocessor counts bathrooms of at least 3, an area above
  100 and a furniture code of 0 or 1, and gives 3; the batch pipeline counts bathrooms of
  at least 4, bedrooms of at least 5, floors of at least 4 and an area above 140, and
  gives 0.
\<close>

theorem luxury_score_divergence:
  "feature (preprocess example_builtins example_service
      [ascii ''Area'' \<mapsto> PInt 120, ascii ''Bathrooms'' \<mapsto> PInt 3,
       ascii ''Bedrooms'' \<mapsto> PInt 2, ascii ''Floors'' \<mapsto> PInt 1]) (ascii ''luxury_score'')
     = Some (PInt 3) \<and>
   result_column (create_interaction_features
      [(ascii ''Area'', [Num 120]), (ascii ''Bathrooms'', [Num 3]),
       (ascii ''Bedrooms'', [Num 2]), (ascii ''Floors'', [Num 1])]) (ascii ''luxury_score'')
     = Some [Num 0]"
proof -
  let ?data = "[ascii ''Area'' \<mapsto> PInt 120, ascii ''Bathrooms'' \<mapsto> PInt 3,
       ascii ''Bedrooms'' \<mapsto> PInt 2, ascii ''Floors'' \<mapsto> PInt 1]"
  have wt: "well_typed_input ?data"
    by (simp add: well_typed_input_def data_get_def input_access_road_def input_direction_def
          input_balcony_dir_def input_legal_def input_furniture_def input_city_def
          input_district_def input_ward_def float_convertible_def int_convertible_def
          str_or_falsy_def hashable_def ascii_def)
  obtain p where p: "preprocess_processed example_builtins example_service ?data = Inr p"
    using preprocess_processed_total [OF wt] by blast
  from processed_numeric [OF p] obtain area bathrooms where
    "to_float example_builtins (data_get ?data (ascii ''Area'') (PInt 70)) (Finite 0) = Inr area"
    "to_float example_builtins (data_get ?data (ascii ''Bathrooms'') (PInt 2)) (Finite 0) = Inr bathrooms"
    and pn: "p (ascii ''Area'') = Some (PFloat area)" "p (ascii ''Bathrooms'') = Some (PFloat bathrooms)"
    by blast
  then have n: "area = Finite 120" "bathrooms = Finite 3"
    by (simp_all add: data_get_def to_float_def ascii_def)
  from processed_categorical [OF p] obtain furniture where
    "encode_furniture example_builtins (input_furniture ?data) = Inr furniture"
    and pc: "p (ascii ''Furniture state'') = Some (PInt furniture)"
    by blast
  then have c: "furniture = 1"
    by (simp add: input_furniture_def data_get_def ascii_def encode_furniture_def py_lower_def
          strip_def lstrip_def rstrip_def dict_get_def FURNITURE_MAPPING_def)
  from processed_scores [OF p] pn pc n c
  have "p (ascii ''luxury_score'') = Some (PInt 3)"
    by (auto simp: f_ge_def f_gt_def f_eq_def)
  then have online: "feature (preprocess example_builtins example_service ?data) (ascii ''luxury_score'')
     = Some (PInt 3)"
    by (rule feature_preprocess [OF p expected_members(16)])
  have batch: "result_column (create_interaction_features
      [(ascii ''Area'', [Num 120]), (ascii ''Bathrooms'', [Num 3]),
       (ascii ''Bedrooms'', [Num 2]), (ascii ''Floors'', [Num 1])]) (ascii ''luxury_score'')
     = Some [Num 0]"
    by (simp add: result_column_def create_interaction_features_def has_column_def assign_def
          mul_columns_def get_column_def col_binop_def py_bind_def luxury_score_column_def
          ge_column_def gt_column_def col_ge_int_def col_gt_int_def ascii_def)
  from online batch show ?thesis by (rule conjI)
qed

theorem luxury_score_divergence_witness:
  "feature (preprocess example_builtins example_service
      [ascii ''Area'' \<mapsto> PInt 120, ascii ''Bathrooms'' \<mapsto> PInt 3,
       ascii ''Bedrooms'' \<mapsto> PInt 2, ascii ''Floors'' \<mapsto> PInt 1]) (ascii ''luxury_score'')
     \<noteq> Some (PInt 0) \<and>
   result_column (create_interaction_features
      [(ascii ''Area'', [Num 120]), (ascii ''Bathrooms'', [Num 3]),
       (ascii ''Bedrooms'', [Num 2]), (ascii ''Floors'', [Num 1])]) (ascii ''luxury_score'')
     = Some [Num 0]"
  using luxury_score_divergence by simp




subsection \<open>Outlier removal and label encoding in split\_and\_encode\<close>


lemma quantile_total: "\<not> has_str y \<Longrightarrow> \<exists>c. quantile q y = Inr c"
  by (simp add: quantile_def Let_def)

lemma iqr_bounds_total: "\<not> has_str y \<Longrightarrow> \<exists>b. iqr_bounds m y = Inr b"
  by (auto simp: iqr_bounds_def quantile_def Let_def py_bind_def)

text \<open>
  C3. Phase 1.5 returns whenever the training target holds no string. When it returns,
  the test partition comes back as it went in, rows and row count; the training partition
  is the selection of its rows by one mask, which is the same whatever the test partition
  is; and with the IQR method enabled the mask keeps the rows whose target lies within the
  bounds computed from \<^verbatim>\<open>y_train\<close>.
\<close>

theorem outlier_removal_train_only:
  "(\<not> has_str y_train \<longrightarrow>
      (\<exists>r. split_and_encode_phase_1_5 config (X_train, y_train, X_test, y_test) = Inr r)) \<and>
   (\<forall>X_train' y_train' X_test' y_test'.
      split_and_encode_phase_1_5 config (X_train, y_train, X_test, y_test)
        = Inr (X_train', y_train', X_test', y_test') \<longrightarrow>
      X_test' = X_test \<and> y_test' = y_test \<and>
      map (\<lambda>p. length (snd p)) X_test' = map (\<lambda>p. length (snd p)) X_test \<and>
      (\<forall>X2 y2. split_and_encode_phase_1_5 config (X_train, y_train, X2, y2)
                = Inr (X_train', y_train', X2, y2)) \<and>
      ((case outlier_enabled config of None \<Rightarrow> True | Some b \<Rightarrow> b) \<and>
       (case outlier_method config of None \<Rightarrow> True | Some m \<Rightarrow> m = ascii ''iqr'') \<longrightarrow>
         (\<exists>bounds. iqr_bounds (case iqr_multiplier config of None \<Rightarrow> 1.5 | Some m \<Rightarrow> m) y_train
                     = Inr bounds \<and>
            X_train' = filter_rows (map (within_bounds bounds) y_train) X_train \<and>
            y_train' = select_rows (map (within_bounds bounds) y_train) y_train)) \<and>
      (\<not> ((case outlier_enabled config of None \<Rightarrow> True | Some b \<Rightarrow> b) \<and>
          (case outlier_method config of None \<Rightarrow> True | Some m \<Rightarrow> m = ascii ''iqr'')) \<longrightarrow>
         X_train' = X_train \<and> y_train' = y_train))"
proof (intro conjI allI impI)
  assume "\<not> has_str y_train"
  then obtain b where "iqr_bounds (case iqr_multiplier config of None \<Rightarrow> 1.5 | Some m \<Rightarrow> m) y_train = Inr b"
    using iqr_bounds_total by blast
  then show "\<exists>r. split_and_encode_phase_1_5 config (X_train, y_train, X_test, y_test) = Inr r"
    by (simp add: split_and_encode_phase_1_5_def Let_def py_bind_def)
next
  fix X_train' y_train' X_test' y_test'
  assume r: "split_and_encode_phase_1_5 config (X_train, y_train, X_test, y_test)
        = Inr (X_train', y_train', X_test', y_test')"
  then show t: "X_test' = X_test" and "y_test' = y_test"
    by (auto simp: split_and_encode_phase_1_5_def Let_def py_bind_Inr split: if_splits)
  then show "map (\<lambda>p. length (snd p)) X_test' = map (\<lambda>p. length (snd p)) X_test"
    by simp
  fix X2 y2
  from r show "split_and_encode_phase_1_5 config (X_train, y_train, X2, y2)
                = Inr (X_train', y_train', X2, y2)"
    by (auto simp: split_and_encode_phase_1_5_def Let_def py_bind_Inr split: if_splits)
next
  fix X_train' y_train' X_test' y_test'
  assume r: "split_and_encode_phase_1_5 config (X_train, y_train, X_test, y_test)
        = Inr (X_train', y_train', X_test', y_test')"
    and e: "(case outlier_enabled config of None \<Rightarrow> True | Some b \<Rightarrow> b) \<and>
       (case outlier_method config of None \<Rightarrow> True | Some m \<Rightarrow> m = ascii ''iqr'')"
  from e have m: "(case outlier_method config of None \<Rightarrow> ascii ''iqr'' | Some m \<Rightarrow> m) = ascii ''iqr''"
    by (simp split: option.splits)
  from r e m show "\<exists>bounds. iqr_bounds (case iqr_multiplier config of None \<Rightarrow> 1.5 | Some m \<Rightarrow> m) y_train
                     = Inr bounds \<and>
            X_train' = filter_rows (map (within_bounds bounds) y_train) X_train \<and>
            y_train' = select_rows (map (within_bounds bounds) y_train) y_train"
    by (auto simp: split_and_encode_phase_1_5_def Let_def py_bind_Inr)
next
  fix X_train' y_train' X_test' y_test'
  assume r: "split_and_encode_phase_1_5 config (X_train, y_train, X_test, y_test)
        = Inr (X_train', y_train', X_test', y_test')"
    and e: "\<not> ((case outlier_enabled config of None \<Rightarrow> True | Some b \<Rightarrow> b) \<and>
       (case outlier_method config of None \<Rightarrow> True | Some m \<Rightarrow> m = ascii ''iqr''))"
  from e have "\<not> (case outlier_enabled config of None \<Rightarrow> True | Some b \<Rightarrow> b) \<or>
      (case outlier_method config of None \<Rightarrow> ascii ''iqr'' | Some m \<Rightarrow> m) \<noteq> ascii ''iqr''"
    by (auto split: option.splits)
  with r show "X_train' = X_train" and "y_train' = y_train"
    by (auto simp: split_and_encode_phase_1_5_def Let_def split: if_splits)
qed

theorem outlier_removal_train_only_witness:
  "split_and_encode_phase_1_5 \<lparr>outlier_enabled = None, outlier_method = None, iqr_multiplier = None\<rparr>
     ([(ascii ''Area'', [Num 10, Num 20, Num 30, Num 40, Num 50])],
      [Num 1, Num 2, Num 3, Num 4, Num 100],
      [(ascii ''Area'', [Num 999])], [Num 1000000])
   = Inr ([(ascii ''Area'', [Num 10, Num 20, Num 30, Num 40])], [Num 1, Num 2, Num 3, Num 4],
          [(ascii ''Area'', [Num 999])], [Num 1000000])"
proof -
  let ?config = "\<lparr>outlier_enabled = None, outlier_method = None, iqr_multiplier = None\<rparr>"
  let ?X = "[(ascii ''Area'', [Num 10, Num 20, Num 30, Num 40, Num 50])]"
  let ?y = "[Num 1, Num 2, Num 3, Num 4, Num 100]"
  let ?Xt = "[(ascii ''Area'', [Num 999])]"
  let ?yt = "[Num 1000000]"
  note inst = outlier_removal_train_only [of ?y ?config ?X ?Xt ?yt]
  have "\<not> has_str ?y"
    by (simp add: has_str_def)
  with inst obtain a b c d where
    r: "split_and_encode_phase_1_5 ?config (?X, ?y, ?Xt, ?yt) = Inr (a, b, c, d)"
    by (metis prod_cases4)
  have q: "quantile (1 / 4) ?y = Inr (Num 2)" "quantile (3 / 4) ?y = Inr (Num 4)"
    by (simp_all add: quantile_def has_str_def Let_def)
  have bounds: "iqr_bounds (3 / 2) ?y = Inr (Some (- 1, 7))"
    by (simp add: iqr_bounds_def q py_bind_def)
  from inst r bounds have "c = ?Xt" "d = ?yt"
    "a = filter_rows (map (within_bounds (Some (- 1, 7))) ?y) ?X"
    "b = select_rows (map (within_bounds (Some (- 1, 7))) ?y) ?y"
    by simp_all
  then have "a = [(ascii ''Area'', [Num 10, Num 20, Num 30, Num 40])]" "b = [Num 1, Num 2, Num 3, Num 4]"
    "c = ?Xt" "d = ?yt"
    by (simp_all add: filter_rows_def select_rows_def within_bounds_def)
  with r show ?thesis by simp
qed




subsection \<open>Missing values through basic\_preprocessing\<close>












lemma has_column_update: "has_column (AList.update c col frame) c' \<longleftrightarrow> c' = c \<or> has_column frame c'"
  by (auto simp: has_column_def AList.update_conv')















lemma first_mode_empty: "dropna col = [] \<Longrightarrow> first_mode col = None"
  by (simp add: first_mode_def modes_def Let_def unique_def has_str_def)














lemma fills_only_missing:
  assumes "fills_only col col'" and "Missing \<in> set col'"
  shows "Missing \<in> set col"
proof -
  from assms(2) obtain i where i: "i < length col'" "col' ! i = Missing"
    by (auto simp: in_set_conv_nth)
  with assms(1) have "i < length col" "col ! i = Missing"
    by (auto simp: fills_only_def)
  then show ?thesis by (metis nth_mem)
qed

lemma fills_only_has_value:
  assumes "fills_only col col'" and "dropna col \<noteq> []"
  shows "dropna col' \<noteq> []"
proof -
  from assms(2) obtain v where "v \<in> set col" "v \<noteq> Missing"
    by (auto simp: dropna_def filter_empty_conv)
  then obtain i where i: "i < length col" "col ! i \<noteq> Missing"
    by (auto simp: in_set_conv_nth)
  with assms(1) have "i < length col'" "col' ! i \<noteq> Missing"
    by (auto simp: fills_only_def)
  then have "col' ! i \<in> set col'" "col' ! i \<noteq> Missing" by simp_all
  then show ?thesis by (auto simp: dropna_def filter_empty_conv)
qed


















































end
